theory Spec2Isabelle
  imports Main
begin

section \<open>Data model\<close>

text \<open>
  The three collections of the notes backend (models/Tenant.js, models/Note.js and the
  User schema) as records, and the database as a record of three lists. A MongoDB
  ObjectId is a natural number: the code compares ObjectIds through \<open>toString()\<close>,
  which is injective on ObjectIds, so the model compares the ids themselves.
  Strings are ASCII character lists.
\<close>

type_synonym objectId = nat

text \<open>
  Tenant schema (models/Tenant.js): \<open>subscription.plan\<close> is a string restricted to
  "free" and "pro" (default "free"), \<open>settings.max_notes\<close> a Number (default 3; -1
  after an upgrade). Timestamps are left out, \<open>upgraded_at\<close> is a time in seconds.
\<close>

record Tenant =
  t_id :: objectId
  t_name :: string
  slug :: string
  plan :: string
  upgraded_at :: "nat option"
  max_notes :: int

text \<open>
  Modelled from the spec: the User schema (models/User.js is not among the sources).
  Section 3 of the specification and the README give it an email, a role in
  {admin, member}, the owning tenant reference and the active flag; the password hash
  plays no part in any operation modelled here.
\<close>

record User =
  u_id :: objectId
  email :: string
  role :: string
  u_tenant :: objectId
  isActive :: bool

text \<open>Note schema (models/Note.js); \<open>isArchived\<close> defaults to false.\<close>

record Note =
  n_id :: objectId
  title :: string
  content :: string
  author :: objectId
  n_tenant :: objectId
  tags :: "string list"
  isArchived :: bool

record store =
  Tenants :: "Tenant list"
  Users :: "User list"
  Notes :: "Note list"

text \<open>Schema defaults of a tenant created with a name and a slug only.\<close>

definition Tenant_new :: "objectId \<Rightarrow> string \<Rightarrow> string \<Rightarrow> Tenant" where
  "Tenant_new i nm sl =
     \<lparr>t_id = i, t_name = nm, slug = sl, plan = ''free'', upgraded_at = None, max_notes = 3\<rparr>"

subsection \<open>Queries of the object-document mapper\<close>

text \<open>
  \<open>Model.countDocuments(filter)\<close>, \<open>Model.findOne(filter)\<close> (the first matching
  document or null) over a collection held as a list.
\<close>

definition countDocuments :: "('a \<Rightarrow> bool) \<Rightarrow> 'a list \<Rightarrow> nat" where
  "countDocuments q docs = length (filter q docs)"

definition findOne :: "('a \<Rightarrow> bool) \<Rightarrow> 'a list \<Rightarrow> 'a option" where
  "findOne q docs = find q docs"

section \<open>Subscription gate (models/Tenant.js)\<close>

text \<open>
  \<^verbatim>\<open>
  tenantSchema.methods.canCreateNote = async function () {
    if (this.subscription.plan === "pro") return true;
    const noteCount = await Note.countDocuments({ tenant: this._id });
    return noteCount < this.settings.max_notes;
  };
  \<close>
\<close>

definition canCreateNote :: "store \<Rightarrow> Tenant \<Rightarrow> bool" where
  "canCreateNote s t =
     (if plan t = ''pro'' then True
      else int (countDocuments (\<lambda>n. n_tenant n = t_id t) (Notes s)) < max_notes t)"

section \<open>HTTP replies and the request context\<close>

text \<open>
  A reply is the status code passed to \<open>res.status\<close>, the text of its \<open>error\<close> or
  \<open>message\<close> field, and the note of its \<open>data\<close> field when there is one.
\<close>

datatype response = Response (status: nat) (msg: string) (data: "Note option")

text \<open>
  \<open>User.findById(id).populate("tenant")\<close> yields the user with its tenant reference
  replaced by the tenant document, or by null when no tenant has that id.
\<close>

record PopulatedUser =
  pu_id :: objectId
  pu_email :: string
  pu_role :: string
  pu_tenant :: "Tenant option"
  pu_isActive :: bool

definition populate_tenant :: "store \<Rightarrow> User \<Rightarrow> PopulatedUser" where
  "populate_tenant s u =
     \<lparr>pu_id = u_id u, pu_email = email u, pu_role = role u,
      pu_tenant = findOne (\<lambda>t. t_id t = u_tenant u) (Tenants s),
      pu_isActive = isActive u\<rparr>"

text \<open>What the middleware attaches to the request: \<open>req.user\<close> and \<open>req.tenant\<close>.\<close>

record request =
  req_user :: "PopulatedUser option"
  req_tenant :: "Tenant option"

subsection \<open>String operations of the host language\<close>

text \<open>
  \<open>str.replace(pattern, replacement)\<close> with a string pattern replaces the first
  occurrence of the pattern, wherever it stands, and leaves a string without one as it is.
\<close>

fun replace_first :: "string \<Rightarrow> string \<Rightarrow> string \<Rightarrow> string" where
  "replace_first pat rep [] = (if pat = [] then rep else [])"
| "replace_first pat rep (c # cs) =
     (if take (length pat) (c # cs) = pat then rep @ drop (length pat) (c # cs)
      else c # replace_first pat rep cs)"

text \<open>The schema options \<open>trim: true\<close> and \<open>lowercase: true\<close>, on ASCII.\<close>

definition is_space :: "char \<Rightarrow> bool" where
  "is_space c = (c \<in> {CHR '' '', CHR 0x09, CHR 0x0A, CHR 0x0B, CHR 0x0C, CHR 0x0D})"

definition trim :: "string \<Rightarrow> string" where
  "trim s = rev (dropWhile is_space (rev (dropWhile is_space s)))"

definition toLowerCase :: "string \<Rightarrow> string" where
  "toLowerCase s =
     map (\<lambda>c. if 65 \<le> (of_char c :: nat) \<and> (of_char c :: nat) \<le> 90
               then char_of ((of_char c :: nat) + 32) else c) s"

text \<open>
  \<open>Tenant.findOne({ slug: value })\<close>. The mapper casts the value of a query filter by
  the schema of its path, and the slug path is declared with \<open>lowercase: true\<close> and
  \<open>trim: true\<close> (models/Tenant.js): the lookup is by the lowercased, trimmed value.
\<close>

definition Tenant_findOne_slug :: "store \<Rightarrow> string \<Rightarrow> Tenant option" where
  "Tenant_findOne_slug s value = findOne (\<lambda>t. slug t = toLowerCase (trim value)) (Tenants s)"

section \<open>Token codec (utils/jwt.js)\<close>

text \<open>
  The claim set that \<open>generateAccessToken\<close> signs, and the decoded token, which is the
  claim set extended by the registered claims \<open>iat\<close>, \<open>exp\<close> and \<open>iss\<close>.
  The fields \<open>c_userId\<close>, ..., \<open>c_tenantSlug\<close> are the claims \<open>userId\<close>, ...,
  \<open>tenantSlug\<close>; \<open>tenantSlug\<close> is \<open>user.tenant.slug || user.tenant\<close>: the slug, or the tenant
  document itself when the slug is the empty (falsy) string.
\<close>

record token_claims =
  c_userId :: objectId
  c_email :: string
  c_role :: string
  c_tenantId :: objectId
  c_tenantSlug :: "string + Tenant"

record decoded_token = token_claims +
  iat :: nat
  exp :: nat
  iss :: string

text \<open>
  Modelled from the spec: \<open>jwt.sign\<close> and \<open>jwt.verify\<close> of the jsonwebtoken package,
  which is not among the sources. Section 4.1 of the specification: issuing produces a
  signed, time-boxed token; verifying returns the decoded claim set or fails when the
  signature is invalid, the token is malformed, or it has expired. A token is symbolic:
  either a string that is no token at all, or a decoded body together with the secret
  its signature was made with. Times are seconds.
\<close>

datatype jwt = Malformed string | Signed decoded_token string

definition jwt_sign :: "token_claims \<Rightarrow> string \<Rightarrow> nat \<Rightarrow> string \<Rightarrow> nat \<Rightarrow> jwt" where
  "jwt_sign payload secret expiresIn issuer now =
     Signed (token_claims.extend payload
               (decoded_token.fields now (now + expiresIn) issuer)) secret"

definition jwt_verify :: "jwt \<Rightarrow> string \<Rightarrow> nat \<Rightarrow> string + decoded_token" where
  "jwt_verify token secret now =
     (case token of
        Malformed _ \<Rightarrow> Inl ''jwt malformed''
      | Signed body key \<Rightarrow>
          if key \<noteq> secret then Inl ''invalid signature''
          else if exp body \<le> now then Inl ''jwt expired''
          else Inr body)"

text \<open>
  The process environment: \<open>JWT_SECRET\<close>, and \<open>JWT_EXPIRES_IN\<close> as the number of
  seconds it denotes (\<open>None\<close> when unset or empty, where the code falls back to "7d").
\<close>

record env =
  JWT_SECRET :: string
  JWT_EXPIRES_IN :: "nat option"

text \<open>
  \<^verbatim>\<open>
  const generateToken = (payload) => {
    return jwt.sign(payload, process.env.JWT_SECRET, {
      expiresIn: process.env.JWT_EXPIRES_IN || "7d",
      issuer: "notes-saas",
    });
  };
  const verifyToken = (token) => {
    try { return jwt.verify(token, process.env.JWT_SECRET); }
    catch (error) { throw new Error("Invalid token"); }
  };
  \<close>
\<close>

definition expiresIn :: "env \<Rightarrow> nat" where
  "expiresIn e = (case JWT_EXPIRES_IN e of None \<Rightarrow> 7 * 24 * 60 * 60 | Some d \<Rightarrow> d)"

definition generateToken :: "env \<Rightarrow> nat \<Rightarrow> token_claims \<Rightarrow> jwt" where
  "generateToken e now payload =
     jwt_sign payload (JWT_SECRET e) (expiresIn e) ''notes-saas'' now"

definition verifyToken :: "env \<Rightarrow> nat \<Rightarrow> jwt \<Rightarrow> string + decoded_token" where
  "verifyToken e now token =
     (case jwt_verify token (JWT_SECRET e) now of
        Inl _ \<Rightarrow> Inl ''Invalid token''
      | Inr decoded \<Rightarrow> Inr decoded)"

text \<open>
  \<open>generateAccessToken(user)\<close>, for the user with its tenant populated that the login
  passes. Reading \<open>user.tenant._id\<close> of a null tenant throws: the result is \<open>None\<close>.
\<close>

definition generateAccessToken :: "env \<Rightarrow> nat \<Rightarrow> PopulatedUser \<Rightarrow> jwt option" where
  "generateAccessToken e now u =
     (case pu_tenant u of
        None \<Rightarrow> None
      | Some t \<Rightarrow>
          Some (generateToken e now
            \<lparr>c_userId = pu_id u, c_email = pu_email u, c_role = pu_role u,
             c_tenantId = t_id t,
             c_tenantSlug = (if slug t \<noteq> [] then Inl (slug t) else Inr t)\<rparr>))"

section \<open>Access control chain (middleware/auth.js)\<close>

text \<open>
  A middleware either replies (\<open>Inl\<close>) or calls \<open>next()\<close> with the request as it has
  enriched it (\<open>Inr\<close>). In \<open>authenticate\<close> the parameter \<open>verify\<close> stands for
  \<open>jwt.verify(_, process.env.JWT_SECRET)\<close> at the time of the request, \<open>None\<close> when
  it throws; the header is \<open>req.header("Authorization")\<close>, \<open>None\<close> when absent.
  \<open>bearer_token\<close> is \<open>req.header("Authorization")?.replace("Bearer ", "")\<close> and
  \<open>User_findById_populate\<close> is \<open>User.findById(id).populate("tenant")\<close>.
  Every exception inside \<open>authenticate\<close> is caught and answered with 401.
\<close>

definition bearer_token :: "string option \<Rightarrow> string option" where
  "bearer_token header = map_option (replace_first ''Bearer '' []) header"

definition User_findById_populate :: "store \<Rightarrow> objectId \<Rightarrow> PopulatedUser option" where
  "User_findById_populate s i =
     map_option (populate_tenant s) (findOne (\<lambda>u. u_id u = i) (Users s))"

definition authenticate ::
  "(string \<Rightarrow> decoded_token option) \<Rightarrow> store \<Rightarrow> string option \<Rightarrow> request
     \<Rightarrow> response + request" where
  "authenticate verify s header req =
     (case bearer_token header of
        None \<Rightarrow> Inl (Response 401 ''Access denied. No token provided.'' None)
      | Some token \<Rightarrow>
          if token = [] then Inl (Response 401 ''Access denied. No token provided.'' None)
          else (case verify token of
             None \<Rightarrow> Inl (Response 401 ''Invalid token.'' None)
           | Some decoded \<Rightarrow>
               (case User_findById_populate s (c_userId decoded) of
                  None \<Rightarrow> Inl (Response 401 ''Invalid token. User not found.'' None)
                | Some user \<Rightarrow>
                    if \<not> pu_isActive user
                    then Inl (Response 401 ''Account is deactivated.'' None)
                    else Inr (req\<lparr>req_user := Some user, req_tenant := pu_tenant user\<rparr>))))"

definition requireAdmin :: "request \<Rightarrow> response + request" where
  "requireAdmin req =
     (case req_user req of
        None \<Rightarrow> Inl (Response 401 ''Authentication required.'' None)
      | Some u \<Rightarrow>
          if pu_role u \<noteq> ''admin''
          then Inl (Response 403 ''Access denied. Admin privileges required.'' None)
          else Inr req)"

definition requireMember :: "request \<Rightarrow> response + request" where
  "requireMember req =
     (case req_user req of
        None \<Rightarrow> Inl (Response 401 ''Authentication required.'' None)
      | Some u \<Rightarrow>
          if pu_role u \<notin> set [''member'', ''admin'']
          then Inl (Response 403 ''Access denied. Member privileges required.'' None)
          else Inr req)"

text \<open>
  \<open>validateTenant\<close>; the argument is \<open>req.params.slug\<close>, \<open>None\<close> when the route has no
  such parameter; a parameter of a matched \<open>/:slug\<close> route is never empty. With a
  user attached the comparison is \<open>req.user.tenant.slug !== tenantSlug\<close>, on the
  strings as they are; without one the tenant is looked up by
  \<open>Tenant.findOne({ slug: tenantSlug })\<close>. Reading \<open>req.user.tenant.slug\<close> of a null
  tenant throws, which the handler catches and answers with 500.
\<close>

definition validateTenant :: "store \<Rightarrow> string option \<Rightarrow> request \<Rightarrow> response + request" where
  "validateTenant s slug_param req =
     (case slug_param of
        None \<Rightarrow> Inl (Response 400 ''Tenant slug is required.'' None)
      | Some tenantSlug \<Rightarrow>
          if tenantSlug = [] then Inl (Response 400 ''Tenant slug is required.'' None)
          else (case req_user req of
             Some u \<Rightarrow>
               (case pu_tenant u of
                  None \<Rightarrow> Inl (Response 500 ''Internal server error.'' None)
                | Some t \<Rightarrow>
                    if slug t \<noteq> tenantSlug
                    then Inl (Response 403
                           ''Access denied. You do not belong to this tenant.'' None)
                    else Inr req)
           | None \<Rightarrow>
               (case Tenant_findOne_slug s tenantSlug of
                  None \<Rightarrow> Inl (Response 404 ''Tenant not found.'' None)
                | Some t \<Rightarrow> Inr (req\<lparr>req_tenant := Some t\<rparr>))))"

section \<open>Note ownership policy (models/Note.js)\<close>

text \<open>
  The \<open>author\<close> field of a note document in memory: the author's ObjectId, as a
  lookup returns it; or, after \<open>populate("author", "email role")\<close>, the user document
  with its \<open>_id\<close>, email and role, or null when no user has that id.
\<close>

datatype author_value = AuthorId objectId | AuthorDoc objectId string string | AuthorNull

definition populate_author :: "store \<Rightarrow> Note \<Rightarrow> author_value" where
  "populate_author s n =
     (case findOne (\<lambda>u. u_id u = author n) (Users s) of
        None \<Rightarrow> AuthorNull
      | Some u \<Rightarrow> AuthorDoc (u_id u) (email u) (role u))"

text \<open>
  \<^verbatim>\<open>
  noteSchema.methods.canModify = function (userId, userRole) {
    // Admins can modify any note in their tenant
    if (userRole === "admin") return true;
    // Members can only modify their own notes
    return this.author.toString() === userId.toString();
  };
  \<close>
  The first argument is \<open>this.author\<close>. \<open>toString()\<close> of an ObjectId is its
  hexadecimal string, so two ObjectIds compare as their ids do. \<open>toString()\<close> of a
  populated author is the mapper's rendering of the whole document, which is never the
  hexadecimal string of an ObjectId: the comparison is false. \<open>toString()\<close> of null
  throws a TypeError (\<open>Inl\<close>).
\<close>

definition canModify :: "author_value \<Rightarrow> objectId \<Rightarrow> string \<Rightarrow> string + bool" where
  "canModify this_author userId userRole =
     (if userRole = ''admin'' then Inr True
      else (case this_author of
              AuthorId a \<Rightarrow> Inr (a = userId)
            | AuthorDoc _ _ _ \<Rightarrow> Inr False
            | AuthorNull \<Rightarrow> Inl ''TypeError''))"

text \<open>
  The rule as section 4.4 of the specification words it, for comparison: true when the
  acting user is an admin of the note's tenant, otherwise true iff the acting user is the
  note's author.
\<close>

definition canModify_spec :: "Note \<Rightarrow> User \<Rightarrow> bool" where
  "canModify_spec n actingUser =
     (if role actingUser = ''admin'' \<and> u_tenant actingUser = n_tenant n then True
      else author n = u_id actingUser)"

section \<open>Note model operations (models/Note.js)\<close>

text \<open>
  \<^verbatim>\<open>
  noteSchema.pre("save", async function (next) {
    if (this.isNew) {
      const user = await User.findById(this.author);
      if (!user) return next(new Error("Author not found"));
      if (user.tenant.toString() !== this.tenant.toString())
        return next(new Error("Note tenant must match author tenant"));
    }
    next();
  });
  \<close>
  The result is the error passed to \<open>next\<close>, or \<open>None\<close>.
\<close>

definition Note_pre_save :: "store \<Rightarrow> bool \<Rightarrow> Note \<Rightarrow> string option" where
  "Note_pre_save s isNew n =
     (if isNew then
        (case findOne (\<lambda>u. u_id u = author n) (Users s) of
           None \<Rightarrow> Some ''Author not found''
         | Some u \<Rightarrow>
             if u_tenant u \<noteq> n_tenant n then Some ''Note tenant must match author tenant''
             else None)
      else None)"

text \<open>
  The fields \<open>Note.create\<close> is called with. \<open>Note.create\<close> casts them by the schema
  (\<open>trim\<close> on the title; \<open>trim\<close> and \<open>lowercase\<close> on every tag), runs the schema
  validators (\<open>required\<close>, \<open>maxlength\<close>), then the pre-save hook, and inserts the
  document under the ObjectId the driver generated (\<open>new_id\<close>); the unique index on
  \<open>_id\<close> refuses an id already in the collection. Any failure is an exception.
\<close>

record NoteInput =
  in_title :: "string option"
  in_content :: "string option"
  in_tags :: "string list"
  in_author :: objectId
  in_tenant :: objectId

definition cast_tags :: "string list \<Rightarrow> string list" where
  "cast_tags ts = map (\<lambda>t. toLowerCase (trim t)) ts"

definition Note_create :: "store \<Rightarrow> objectId \<Rightarrow> NoteInput \<Rightarrow> string + (Note \<times> store)" where
  "Note_create s new_id inp =
     (case (map_option trim (in_title inp), in_content inp) of
        (Some t, Some c) \<Rightarrow>
          if t = [] \<or> 200 < length t \<or> c = [] \<or> 10000 < length c
          then Inl ''Note validation failed''
          else
            (let doc = \<lparr>n_id = new_id, title = t, content = c, author = in_author inp,
                        n_tenant = in_tenant inp, tags = cast_tags (in_tags inp),
                        isArchived = False\<rparr>
             in case Note_pre_save s True doc of
                  Some e \<Rightarrow> Inl e
                | None \<Rightarrow>
                    if new_id \<in> set (map n_id (Notes s)) then Inl ''E11000 duplicate key error''
                    else Inr (doc, s\<lparr>Notes := Notes s @ [doc]\<rparr>))
      | _ \<Rightarrow> Inl ''Note validation failed'')"

text \<open>
  \<open>Note.findByIdAndUpdate(id, updateData, { new: true, runValidators: true })\<close>: the
  fields present in \<open>updateData\<close> are cast by the schema, the schema's validators run
  on them, and they are set on the first document with that id; the updated document is
  returned (null when there is none).
\<close>

record NoteUpdate =
  up_title :: "string option"
  up_content :: "string option"
  up_tags :: "string list option"

fun update_first :: "('a \<Rightarrow> bool) \<Rightarrow> ('a \<Rightarrow> 'a) \<Rightarrow> 'a list \<Rightarrow> 'a list" where
  "update_first q f [] = []"
| "update_first q f (d # ds) = (if q d then f d # ds else d # update_first q f ds)"

fun delete_first :: "('a \<Rightarrow> bool) \<Rightarrow> 'a list \<Rightarrow> 'a list" where
  "delete_first q [] = []"
| "delete_first q (d # ds) = (if q d then ds else d # delete_first q ds)"

definition apply_update :: "NoteUpdate \<Rightarrow> Note \<Rightarrow> Note" where
  "apply_update u n =
     n\<lparr>title := (case up_title u of None \<Rightarrow> title n | Some t \<Rightarrow> trim t),
       content := (case up_content u of None \<Rightarrow> content n | Some c \<Rightarrow> c),
       tags := (case up_tags u of None \<Rightarrow> tags n | Some ts \<Rightarrow> cast_tags ts)\<rparr>"

definition Note_findByIdAndUpdate ::
  "store \<Rightarrow> objectId \<Rightarrow> NoteUpdate \<Rightarrow> string + (Note option \<times> store)" where
  "Note_findByIdAndUpdate s i u =
     (if (case up_title u of None \<Rightarrow> False | Some t \<Rightarrow> trim t = [] \<or> 200 < length (trim t))
       \<or> (case up_content u of None \<Rightarrow> False | Some c \<Rightarrow> c = [] \<or> 10000 < length c)
      then Inl ''Validation failed''
      else
        (let s' = s\<lparr>Notes := update_first (\<lambda>n. n_id n = i) (apply_update u) (Notes s)\<rparr>
         in Inr (findOne (\<lambda>n. n_id n = i) (Notes s'), s')))"

definition Note_findByIdAndDelete :: "store \<Rightarrow> objectId \<Rightarrow> store" where
  "Note_findByIdAndDelete s i = s\<lparr>Notes := delete_first (\<lambda>n. n_id n = i) (Notes s)\<rparr>"

section \<open>Note controller (controllers/noteController.js)\<close>

text \<open>
  A handler takes the database, the request as the middleware left it, and the parts
  of the request it reads; it returns the reply and the database afterwards. The
  request body of the note routes: a field is \<open>None\<close> when it is \<open>undefined\<close>, and
  \<open>tags\<close> is an array of strings or some other value. \<open>errors\<close> is what
  \<open>validationResult(req)\<close> holds. A path parameter that is read as an ObjectId is
  \<open>None\<close> when it does not cast to one (the CastError of the mapper). Reading a field
  of a null \<open>req.tenant\<close> or \<open>req.user\<close> throws, and every exception reaches the
  handler's catch block. \<open>updateNote\<close> looks the note up with
  \<open>.populate("author", "email role")\<close> and calls \<open>canModify\<close> on the populated
  document; \<open>deleteNote\<close> looks it up without \<open>populate\<close>. The note in a reply is
  shown as it is stored.
\<close>

datatype tags_value = TagsArray "string list" | TagsOther

record note_body =
  b_title :: "string option"
  b_content :: "string option"
  b_tags :: "tags_value option"

definition getNote :: "store \<Rightarrow> request \<Rightarrow> objectId option \<Rightarrow> response" where
  "getNote s req id_param =
     (case req_tenant req of
        None \<Rightarrow> Response 500 ''Internal server error'' None
      | Some t \<Rightarrow>
          (case id_param of
             None \<Rightarrow> Response 404 ''Note not found'' None
           | Some i \<Rightarrow>
               (case findOne (\<lambda>n. n_id n = i \<and> n_tenant n = t_id t) (Notes s) of
                  None \<Rightarrow> Response 404 ''Note not found'' None
                | Some n \<Rightarrow> Response 200 [] (Some n))))"

definition createNote ::
  "store \<Rightarrow> objectId \<Rightarrow> request \<Rightarrow> string list \<Rightarrow> note_body \<Rightarrow> response \<times> store" where
  "createNote s new_id req errors body =
     (if errors \<noteq> [] then (Response 400 ''Validation failed'' None, s)
      else
        (case req_tenant req of
           None \<Rightarrow> (Response 500 ''Internal server error'' None, s)
         | Some t \<Rightarrow>
             if \<not> canCreateNote s t
             then (Response 403 ''Note limit reached for your subscription plan'' None, s)
             else
               (case req_user req of
                  None \<Rightarrow> (Response 500 ''Internal server error'' None, s)
                | Some u \<Rightarrow>
                    (case Note_create s new_id
                            \<lparr>in_title = b_title body, in_content = b_content body,
                             in_tags = (case b_tags body of
                                          Some (TagsArray ts) \<Rightarrow> ts | _ \<Rightarrow> []),
                             in_author = pu_id u, in_tenant = t_id t\<rparr> of
                       Inl e \<Rightarrow> (Response 500 ''Internal server error'' None, s)
                     | Inr (n, s') \<Rightarrow>
                         (Response 201 ''Note created successfully'' (Some n), s')))))"

definition updateNote ::
  "store \<Rightarrow> request \<Rightarrow> string list \<Rightarrow> objectId option \<Rightarrow> note_body \<Rightarrow> response \<times> store" where
  "updateNote s req errors id_param body =
     (if errors \<noteq> [] then (Response 400 ''Validation failed'' None, s)
      else
        (case req_tenant req of
           None \<Rightarrow> (Response 500 ''Internal server error'' None, s)
         | Some t \<Rightarrow>
             (case id_param of
                None \<Rightarrow> (Response 404 ''Note not found'' None, s)
              | Some i \<Rightarrow>
                  (case findOne (\<lambda>n. n_id n = i \<and> n_tenant n = t_id t) (Notes s) of
                     None \<Rightarrow> (Response 404 ''Note not found'' None, s)
                   | Some n \<Rightarrow>
                       (case req_user req of
                          None \<Rightarrow> (Response 500 ''Internal server error'' None, s)
                        | Some u \<Rightarrow>
                            (case canModify (populate_author s n) (pu_id u) (pu_role u) of
                               Inl e \<Rightarrow> (Response 500 ''Internal server error'' None, s)
                             | Inr allowed \<Rightarrow>
                            if \<not> allowed
                            then (Response 403
                                    ''Access denied. You can only edit your own notes.'' None, s)
                            else
                              (case Note_findByIdAndUpdate s i
                                      \<lparr>up_title = b_title body, up_content = b_content body,
                                       up_tags = map_option
                                         (\<lambda>v. case v of TagsArray ts \<Rightarrow> ts | TagsOther \<Rightarrow> [])
                                         (b_tags body)\<rparr> of
                                 Inl e \<Rightarrow> (Response 500 ''Internal server error'' None, s)
                               | Inr (updatedNote, s') \<Rightarrow>
                                   (Response 200 ''Note updated successfully'' updatedNote,
                                    s'))))))))"

definition deleteNote :: "store \<Rightarrow> request \<Rightarrow> objectId option \<Rightarrow> response \<times> store" where
  "deleteNote s req id_param =
     (case req_tenant req of
        None \<Rightarrow> (Response 500 ''Internal server error'' None, s)
      | Some t \<Rightarrow>
          (case id_param of
             None \<Rightarrow> (Response 404 ''Note not found'' None, s)
           | Some i \<Rightarrow>
               (case findOne (\<lambda>n. n_id n = i \<and> n_tenant n = t_id t) (Notes s) of
                  None \<Rightarrow> (Response 404 ''Note not found'' None, s)
                | Some n \<Rightarrow>
                    (case req_user req of
                       None \<Rightarrow> (Response 500 ''Internal server error'' None, s)
                     | Some u \<Rightarrow>
                         (case canModify (AuthorId (author n)) (pu_id u) (pu_role u) of
                            Inl e \<Rightarrow> (Response 500 ''Internal server error'' None, s)
                          | Inr allowed \<Rightarrow>
                         if \<not> allowed
                         then (Response 403
                                 ''Access denied. You can only delete your own notes.'' None, s)
                         else (Response 200 ''Note deleted successfully'' None,
                               Note_findByIdAndDelete s i))))))"

section \<open>Tenant controller (controllers/tenantController.js)\<close>

text \<open>
  \<open>doc.save()\<close> on a document read from the database sends the paths modified
  since as an update of the stored document with the same \<open>_id\<close>.
\<close>

definition User_save :: "store \<Rightarrow> objectId \<Rightarrow> (User \<Rightarrow> User) \<Rightarrow> store" where
  "User_save s i modified = s\<lparr>Users := update_first (\<lambda>d. u_id d = i) modified (Users s)\<rparr>"

definition Tenant_save :: "store \<Rightarrow> objectId \<Rightarrow> (Tenant \<Rightarrow> Tenant) \<Rightarrow> store" where
  "Tenant_save s i modified =
     s\<lparr>Tenants := update_first (\<lambda>d. t_id d = i) modified (Tenants s)\<rparr>"

text \<open>
  \<^verbatim>\<open>
  tenantSchema.methods.upgradeToPro = function () {
    this.subscription.plan = "pro";
    this.subscription.upgraded_at = new Date();
    this.settings.max_notes = -1; // -1 means unlimited
    return this.save();
  };
  \<close>
\<close>

definition upgradeToPro :: "store \<Rightarrow> nat \<Rightarrow> Tenant \<Rightarrow> store" where
  "upgradeToPro s now t =
     Tenant_save s (t_id t)
       (\<lambda>d. d\<lparr>plan := ''pro'', upgraded_at := Some now, max_notes := - 1\<rparr>)"

text \<open>
  The handlers read \<open>req.params.slug\<close>, \<open>req.params.userId\<close> (\<open>None\<close> when it does
  not cast to an ObjectId, an exception that ends in the catch block with 500) and, for
  the role update, \<open>req.body.role\<close> (\<open>None\<close> when undefined). Each starts with
  \<open>Tenant.findOne({ slug: req.params.slug })\<close>.
\<close>

definition upgradeTenant :: "store \<Rightarrow> nat \<Rightarrow> request \<Rightarrow> string \<Rightarrow> response \<times> store" where
  "upgradeTenant s now req slug_param =
     (case Tenant_findOne_slug s slug_param of
        None \<Rightarrow> (Response 404 ''Tenant not found'' None, s)
      | Some tenant \<Rightarrow>
          (case req_user req of
             None \<Rightarrow> (Response 500 ''Internal server error'' None, s)
           | Some u \<Rightarrow>
               (case pu_tenant u of
                  None \<Rightarrow> (Response 500 ''Internal server error'' None, s)
                | Some ut \<Rightarrow>
                    if t_id ut \<noteq> t_id tenant
                    then (Response 403
                            ''Access denied. You can only upgrade your own tenant.'' None, s)
                    else if pu_role u \<noteq> ''admin''
                    then (Response 403
                            ''Access denied. Admin privileges required for subscription upgrades.''
                            None, s)
                    else if plan tenant = ''pro''
                    then (Response 400 ''Tenant is already on Pro plan'' None, s)
                    else (Response 200 ''Successfully upgraded to Pro plan'' None,
                          upgradeToPro s now tenant))))"

definition updateUserRole ::
  "store \<Rightarrow> request \<Rightarrow> string \<Rightarrow> objectId option \<Rightarrow> string option \<Rightarrow> response \<times> store" where
  "updateUserRole s req slug_param userId_param role_param =
     (case role_param of
        None \<Rightarrow> (Response 400 ''Invalid role. Must be admin or member.'' None, s)
      | Some new_role \<Rightarrow>
     if new_role \<notin> set [''admin'', ''member'']
     then (Response 400 ''Invalid role. Must be admin or member.'' None, s)
     else
       (case Tenant_findOne_slug s slug_param of
          None \<Rightarrow> (Response 404 ''Tenant not found'' None, s)
        | Some tenant \<Rightarrow>
            (case req_user req of
               None \<Rightarrow> (Response 500 ''Internal server error'' None, s)
             | Some u \<Rightarrow>
                 (case pu_tenant u of
                    None \<Rightarrow> (Response 500 ''Internal server error'' None, s)
                  | Some ut \<Rightarrow>
                      if t_id ut \<noteq> t_id tenant
                      then (Response 403
                              ''Access denied. You can only manage users in your own tenant.''
                              None, s)
                      else if pu_role u \<noteq> ''admin''
                      then (Response 403 ''Access denied. Admin privileges required.'' None, s)
                      else
                        (case userId_param of
                           None \<Rightarrow> (Response 500 ''Internal server error'' None, s)
                         | Some i \<Rightarrow>
                             (case findOne (\<lambda>d. u_id d = i \<and> u_tenant d = t_id tenant)
                                     (Users s) of
                                None \<Rightarrow> (Response 404 ''User not found in this tenant'' None, s)
                              | Some userToUpdate \<Rightarrow>
                                  if u_id userToUpdate = pu_id u \<and> new_role \<noteq> ''admin''
                                  then (Response 400
                                          ''You cannot remove your own admin privileges'' None, s)
                                  else (Response 200 ''User role updated successfully'' None,
                                        User_save s (u_id userToUpdate)
                                          (\<lambda>d. d\<lparr>role := new_role\<rparr>))))))))"

definition deactivateUser ::
  "store \<Rightarrow> request \<Rightarrow> string \<Rightarrow> objectId option \<Rightarrow> response \<times> store" where
  "deactivateUser s req slug_param userId_param =
     (case Tenant_findOne_slug s slug_param of
        None \<Rightarrow> (Response 404 ''Tenant not found'' None, s)
      | Some tenant \<Rightarrow>
          (case req_user req of
             None \<Rightarrow> (Response 500 ''Internal server error'' None, s)
           | Some u \<Rightarrow>
               (case pu_tenant u of
                  None \<Rightarrow> (Response 500 ''Internal server error'' None, s)
                | Some ut \<Rightarrow>
                    if t_id ut \<noteq> t_id tenant \<or> pu_role u \<noteq> ''admin''
                    then (Response 403 ''Access denied. Admin privileges required.'' None, s)
                    else
                      (case userId_param of
                         None \<Rightarrow> (Response 500 ''Internal server error'' None, s)
                       | Some i \<Rightarrow>
                           (case findOne (\<lambda>d. u_id d = i \<and> u_tenant d = t_id tenant)
                                   (Users s) of
                              None \<Rightarrow> (Response 404 ''User not found in this tenant'' None, s)
                            | Some userToDeactivate \<Rightarrow>
                                if u_id userToDeactivate = pu_id u
                                then (Response 400
                                        ''You cannot deactivate your own account'' None, s)
                                else (Response 200 ''User deactivated successfully'' None,
                                      User_save s (u_id userToDeactivate)
                                        (\<lambda>d. d\<lparr>isActive := False\<rparr>)))))))"

section \<open>The note-tenant invariant and the reachable databases\<close>

text \<open>
  A note's tenant is the tenant of the user its \<open>author\<close> field refers to. The
  databases the handlers of the two controllers can reach from one that holds no note.
\<close>

definition author_tenant_ok :: "store \<Rightarrow> Note \<Rightarrow> bool" where
  "author_tenant_ok s n =
     (case findOne (\<lambda>u. u_id u = author n) (Users s) of
        None \<Rightarrow> False
      | Some u \<Rightarrow> u_tenant u = n_tenant n)"

definition note_tenant_inv :: "store \<Rightarrow> bool" where
  "note_tenant_inv s = list_all (author_tenant_ok s) (Notes s)"

inductive reachable :: "store \<Rightarrow> bool" where
  start: "Notes s = [] \<Longrightarrow> reachable s"
| create: "reachable s \<Longrightarrow> reachable (snd (createNote s new_id req errors body))"
| update: "reachable s \<Longrightarrow> reachable (snd (updateNote s req errors id_param body))"
| delete: "reachable s \<Longrightarrow> reachable (snd (deleteNote s req id_param))"
| upgrade: "reachable s \<Longrightarrow> reachable (snd (upgradeTenant s now req slug_param))"
| change_role:
    "reachable s \<Longrightarrow> reachable (snd (updateUserRole s req slug_param userId_param role_param))"
| deactivate: "reachable s \<Longrightarrow> reachable (snd (deactivateUser s req slug_param userId_param))"

section \<open>Example data (config/seeder.js)\<close>

text \<open>
  The two tenants, four users and three notes of the seeder, and databases built from
  them, for evaluating the definitions on concrete inputs.
\<close>

definition acme :: Tenant where
  "acme = Tenant_new 1 ''Acme Corporation'' ''acme''"

definition globex :: Tenant where
  "globex = Tenant_new 2 ''Globex Corporation'' ''globex''"

definition admin_acme :: User where
  "admin_acme = \<lparr>u_id = 11, email = ''admin@acme.test'', role = ''admin'', u_tenant = 1,
                  isActive = True\<rparr>"

definition user_acme :: User where
  "user_acme = \<lparr>u_id = 12, email = ''user@acme.test'', role = ''member'', u_tenant = 1,
                 isActive = True\<rparr>"

definition admin_globex :: User where
  "admin_globex = \<lparr>u_id = 21, email = ''admin@globex.test'', role = ''admin'', u_tenant = 2,
                    isActive = True\<rparr>"

definition user_globex :: User where
  "user_globex = \<lparr>u_id = 22, email = ''user@globex.test'', role = ''member'', u_tenant = 2,
                   isActive = True\<rparr>"

definition sample_note :: "objectId \<Rightarrow> objectId \<Rightarrow> objectId \<Rightarrow> bool \<Rightarrow> Note" where
  "sample_note i a t archived =
     \<lparr>n_id = i, title = ''Welcome'', content = ''First note'', author = a, n_tenant = t,
      tags = [''sample''], isArchived = archived\<rparr>"

definition seeded :: store where
  "seeded = \<lparr>Tenants = [acme, globex],
             Users = [admin_acme, user_acme, admin_globex, user_globex],
             Notes = [sample_note 101 12 1 False, sample_note 102 11 1 False,
                      sample_note 103 22 2 False]\<rparr>"

text \<open>The seeded database after one more Acme note, an archived one.\<close>

definition acme_full :: store where
  "acme_full = seeded\<lparr>Notes := Notes seeded @ [sample_note 104 12 1 True]\<rparr>"

text \<open>
  A verifier that accepts four tokens, the request before any middleware has run, the
  request as \<open>authenticate\<close> leaves it for a stored user, and the seeded database
  after the Acme member has been deactivated.
\<close>

definition demo_decoded :: "objectId \<Rightarrow> decoded_token" where
  "demo_decoded i =
     \<lparr>c_userId = i, c_email = ''someone@acme.test'', c_role = ''member'', c_tenantId = 1,
      c_tenantSlug = Inl ''acme'', iat = 0, exp = 604800, iss = ''notes-saas''\<rparr>"

definition demo_verify :: "string \<Rightarrow> decoded_token option" where
  "demo_verify token =
     (if token = ''jwt11'' then Some (demo_decoded 11)
      else if token = ''jwt12'' then Some (demo_decoded 12)
      else if token = ''jwt22'' then Some (demo_decoded 22)
      else if token = ''jwt99'' then Some (demo_decoded 99)
      else None)"

definition no_context :: request where
  "no_context = \<lparr>req_user = None, req_tenant = None\<rparr>"

definition as_user :: "store \<Rightarrow> User \<Rightarrow> request" where
  "as_user s u =
     \<lparr>req_user = Some (populate_tenant s u), req_tenant = pu_tenant (populate_tenant s u)\<rparr>"

definition seeded_deactivated :: store where
  "seeded_deactivated =
     seeded\<lparr>Users := [admin_acme, user_acme\<lparr>isActive := False\<rparr>, admin_globex, user_globex]\<rparr>"

text \<open>An environment with a one-second expiry, and the claim set of the Acme admin.\<close>

definition short_lived :: env where
  "short_lived = \<lparr>JWT_SECRET = ''s3cret'', JWT_EXPIRES_IN = Some 1\<rparr>"

definition admin_claims :: token_claims where
  "admin_claims =
     \<lparr>c_userId = 11, c_email = ''admin@acme.test'', c_role = ''admin'', c_tenantId = 1,
      c_tenantSlug = Inl ''acme''\<rparr>"

text \<open>The seeded tenants and users before any note exists, and a request body.\<close>

definition seeded_empty :: store where
  "seeded_empty = seeded\<lparr>Notes := []\<rparr>"

definition welcome_body :: note_body where
  "welcome_body =
     \<lparr>b_title = Some ''Welcome'', b_content = Some ''First note'',
      b_tags = Some (TagsArray [''sample''])\<rparr>"

section \<open>Properties\<close>

lemmas example_defs =
  acme_def globex_def admin_acme_def user_acme_def admin_globex_def user_globex_def
  sample_note_def seeded_def acme_full_def Tenant_new_def
  demo_decoded_def demo_verify_def no_context_def as_user_def seeded_deactivated_def
  short_lived_def admin_claims_def seeded_empty_def welcome_body_def

lemma findOne_SomeD: "findOne q docs = Some d \<Longrightarrow> q d \<and> d \<in> set docs"
  unfolding findOne_def by (auto simp add: find_Some_iff)

lemma findOne_None_iff: "findOne q docs = None \<longleftrightarrow> (\<forall>d \<in> set docs. \<not> q d)"
  unfolding findOne_def by (auto simp add: find_None_iff)

lemma countDocuments_split:
  "countDocuments q docs =
     countDocuments (\<lambda>d. q d \<and> p d) docs + countDocuments (\<lambda>d. q d \<and> \<not> p d) docs"
  unfolding countDocuments_def by (induction docs) auto

text \<open>
  Claim C1. A tenant on the pro plan can always create a note, whatever its note count.
  A tenant on the free plan can create a note iff the number of all notes it owns is
  strictly below its \<open>max_notes\<close> setting; that number counts archived and active notes
  alike. So the answer is no at count = max_notes and yes at count = max_notes - 1.
\<close>

theorem canCreateNote_gate:
  "(plan t = ''pro'' \<longrightarrow> canCreateNote s t)
 \<and> (plan t = ''free'' \<longrightarrow>
      (canCreateNote s t \<longleftrightarrow>
         int (countDocuments (\<lambda>n. n_tenant n = t_id t) (Notes s)) < max_notes t))
 \<and> countDocuments (\<lambda>n. n_tenant n = t_id t) (Notes s)
      = countDocuments (\<lambda>n. n_tenant n = t_id t \<and> isArchived n) (Notes s)
      + countDocuments (\<lambda>n. n_tenant n = t_id t \<and> \<not> isArchived n) (Notes s)
 \<and> (plan t = ''free'' \<and>
        int (countDocuments (\<lambda>n. n_tenant n = t_id t) (Notes s)) = max_notes t
      \<longrightarrow> \<not> canCreateNote s t)
 \<and> (plan t = ''free'' \<and>
        int (countDocuments (\<lambda>n. n_tenant n = t_id t) (Notes s)) = max_notes t - 1
      \<longrightarrow> canCreateNote s t)"
proof -
  let ?owned = "countDocuments (\<lambda>n. n_tenant n = t_id t) (Notes s)"
  have split: "?owned
      = countDocuments (\<lambda>n. n_tenant n = t_id t \<and> isArchived n) (Notes s)
      + countDocuments (\<lambda>n. n_tenant n = t_id t \<and> \<not> isArchived n) (Notes s)"
    by (rule countDocuments_split)
  have gate: "plan t = ''free'' \<Longrightarrow> canCreateNote s t \<longleftrightarrow> int ?owned < max_notes t"
    unfolding canCreateNote_def by simp
  have pro: "plan t = ''pro'' \<Longrightarrow> canCreateNote s t"
    unfolding canCreateNote_def by simp
  from gate pro have rest:
    "(plan t = ''pro'' \<longrightarrow> canCreateNote s t)
   \<and> (plan t = ''free'' \<longrightarrow> (canCreateNote s t \<longleftrightarrow> int ?owned < max_notes t))
   \<and> (plan t = ''free'' \<and> int ?owned = max_notes t \<longrightarrow> \<not> canCreateNote s t)
   \<and> (plan t = ''free'' \<and> int ?owned = max_notes t - 1 \<longrightarrow> canCreateNote s t)"
    by auto
  from rest split show ?thesis by blast
qed

theorem canCreateNote_gate_witness:
  "plan acme = ''free''
 \<and> int (countDocuments (\<lambda>n. n_tenant n = t_id acme) (Notes acme_full)) = max_notes acme
 \<and> \<not> canCreateNote acme_full acme
 \<and> int (countDocuments (\<lambda>n. n_tenant n = t_id acme) (Notes seeded)) = max_notes acme - 1
 \<and> canCreateNote seeded acme
 \<and> countDocuments (\<lambda>n. n_tenant n = t_id acme \<and> isArchived n) (Notes acme_full) = 1
 \<and> canCreateNote acme_full (acme\<lparr>plan := ''pro'', max_notes := - 1\<rparr>)"
  using canCreateNote_gate [of acme acme_full] canCreateNote_gate [of acme seeded]
    canCreateNote_gate [of "acme\<lparr>plan := ''pro'', max_notes := - 1\<rparr>" acme_full]
  by (simp add: example_defs countDocuments_def)

lemma updateNote_refuses_non_admin:
  "req_user req = Some u \<Longrightarrow> pu_role u \<noteq> ''admin''
     \<Longrightarrow> status (fst (updateNote s req errors id_param body)) \<noteq> 200
       \<and> snd (updateNote s req errors id_param body) = s"
  unfolding updateNote_def canModify_def populate_author_def
  by (simp split: option.splits)

text \<open>
  Claim C2, where the code departs from it. The Acme member is the author of note 101
  and no admin, so by the claim's rule the member may modify it. \<open>canModify\<close> on the
  note as stored agrees, and \<open>deleteNote\<close>, which passes it the stored note, deletes
  the note. \<open>updateNote\<close> passes it the note with the author populated: the answer is
  false, and the member's update of their own note is refused with 403.
\<close>

theorem member_author_update_refused:
  "author (sample_note 101 12 1 False) = u_id user_acme
 \<and> role user_acme = ''member''
 \<and> canModify_spec (sample_note 101 12 1 False) user_acme
 \<and> canModify (AuthorId (author (sample_note 101 12 1 False))) (u_id user_acme) (role user_acme)
      = Inr True
 \<and> populate_author seeded (sample_note 101 12 1 False)
      = AuthorDoc 12 ''user@acme.test'' ''member''
 \<and> canModify (populate_author seeded (sample_note 101 12 1 False)) (u_id user_acme)
        (role user_acme)
      = Inr False
 \<and> updateNote seeded (as_user seeded user_acme) [] (Some 101)
        \<lparr>b_title = Some ''Edited'', b_content = None, b_tags = None\<rparr>
      = (Response 403 ''Access denied. You can only edit your own notes.'' None, seeded)
 \<and> fst (deleteNote seeded (as_user seeded user_acme) (Some 101))
      = Response 200 ''Note deleted successfully'' None"
  by (simp add: updateNote_def deleteNote_def canModify_def canModify_spec_def
        populate_author_def as_user_def populate_tenant_def findOne_def example_defs)

subsection \<open>Replacing the first occurrence\<close>

lemma replace_first_prefix: "replace_first pat rep (pat @ t) = rep @ t"
proof (cases "pat @ t")
  case Nil
  then show ?thesis by simp
next
  case (Cons c cs)
  have "take (length pat) (pat @ t) = pat" "drop (length pat) (pat @ t) = t" by simp_all
  then have "take (length pat) (c # cs) = pat" "drop (length pat) (c # cs) = t"
    unfolding Cons by simp_all
  then have "replace_first pat rep (c # cs) = rep @ t" by simp
  then show ?thesis unfolding Cons .
qed

lemma no_match_before:
  assumes "pat \<noteq> []" "last pat \<notin> set xs" "last pat \<notin> set (butlast pat)" "xs \<noteq> []"
  shows "take (length pat) (xs @ pat @ ys) \<noteq> pat"
proof
  assume eq: "take (length pat) (xs @ pat @ ys) = pat"
  from assms(1) have pat_eq: "butlast pat @ [last pat] = pat" by simp
  have len: "length pat \<le> length (xs @ butlast pat)"
    using assms(4) by (cases xs) auto
  have split: "xs @ pat @ ys = (xs @ butlast pat) @ (last pat # ys)"
    using pat_eq by (metis append_Cons append_Nil append_assoc)
  have short: "take n (A @ B) = take n A" if "n \<le> length A" for n A B
    using that by simp
  have "take (length pat) (xs @ pat @ ys) = take (length pat) (xs @ butlast pat)"
    unfolding split by (rule short [OF len])
  with eq have "set pat \<subseteq> set (xs @ butlast pat)" by (metis set_take_subset)
  moreover from assms(1) have "last pat \<in> set pat" by simp
  ultimately show False using assms(2,3) by auto
qed

lemma replace_first_inner:
  "pat \<noteq> [] \<Longrightarrow> last pat \<notin> set xs \<Longrightarrow> last pat \<notin> set (butlast pat)
     \<Longrightarrow> replace_first pat rep (xs @ pat @ ys) = xs @ rep @ ys"
proof (induction xs)
  case Nil
  then show ?case by (simp add: replace_first_prefix)
next
  case (Cons c cs)
  from Cons.prems have "take (length pat) ((c # cs) @ pat @ ys) \<noteq> pat"
    by (intro no_match_before) simp_all
  with Cons show ?case by simp
qed

lemma replace_first_absent:
  "pat \<noteq> [] \<Longrightarrow> last pat \<notin> set xs \<Longrightarrow> replace_first pat rep xs = xs"
proof (induction xs)
  case Nil
  then show ?case by simp
next
  case (Cons c cs)
  have "take (length pat) (c # cs) \<noteq> pat"
  proof
    assume eq: "take (length pat) (c # cs) = pat"
    from Cons.prems(1) have "last pat \<in> set pat" by simp
    with eq have "last pat \<in> set (take (length pat) (c # cs))" by simp
    then have "last pat \<in> set (c # cs)" by (rule in_set_takeD)
    with Cons.prems(2) show False by simp
  qed
  with Cons show ?case by simp
qed

lemma bearer_strip_prefix: "replace_first ''Bearer '' [] (''Bearer '' @ t) = t"
  using replace_first_prefix [of "''Bearer ''" "[]" t] by simp

lemma bearer_strip_bare: "CHR '' '' \<notin> set t \<Longrightarrow> replace_first ''Bearer '' [] t = t"
  using replace_first_absent [of "''Bearer ''" t "[]"] by simp

lemma bearer_strip_inner:
  "CHR '' '' \<notin> set xs \<Longrightarrow> replace_first ''Bearer '' [] (xs @ ''Bearer '' @ ys) = xs @ ys"
  using replace_first_inner [of "''Bearer ''" xs "[]" ys] by simp

lemmas eval_defs =
  authenticate_def bearer_token_def User_findById_populate_def populate_tenant_def findOne_def

text \<open>
  Claim C4. \<open>authenticate\<close> replies instead of passing the request on in exactly
  these cases: the header carries no token (it is absent, or nothing is left once
  "Bearer " is taken out), the token does not verify, no user has the decoded
  \<open>userId\<close>, or that user's \<open>isActive\<close> flag is false. Every such reply has status
  401. When it passes the request on, the request carries the stored, active user whose
  id is the decoded \<open>userId\<close>, with that user's email and role, and as tenant the
  stored tenant whose id is that user's tenant reference.
\<close>

theorem authenticate_outcomes:
  "((\<exists>r. authenticate verify s header req = Inl r) \<longleftrightarrow>
      (bearer_token header = None \<or> bearer_token header = Some [] \<or>
       (\<exists>token. bearer_token header = Some token \<and>
          (verify token = None \<or>
           (\<exists>decoded. verify token = Some decoded \<and>
              (User_findById_populate s (c_userId decoded) = None \<or>
               (\<exists>user. User_findById_populate s (c_userId decoded) = Some user
                       \<and> \<not> pu_isActive user)))))))
 \<and> (\<forall>r. authenticate verify s header req = Inl r \<longrightarrow> status r = 401)
 \<and> (\<forall>req'. authenticate verify s header req = Inr req' \<longrightarrow>
       (\<exists>token decoded user.
          bearer_token header = Some token \<and> verify token = Some decoded
        \<and> User_findById_populate s (c_userId decoded) = Some user
        \<and> req' = req\<lparr>req_user := Some user, req_tenant := pu_tenant user\<rparr>))
 \<and> (bearer_token header = None \<longleftrightarrow> header = None)
 \<and> (\<forall>req'. authenticate verify s header req = Inr req' \<longrightarrow>
       (\<exists>token decoded u.
          bearer_token header = Some token \<and> verify token = Some decoded
        \<and> findOne (\<lambda>u. u_id u = c_userId decoded) (Users s) = Some u
        \<and> u \<in> set (Users s) \<and> u_id u = c_userId decoded \<and> isActive u
        \<and> req_user req'
            = Some \<lparr>pu_id = u_id u, pu_email = email u, pu_role = role u,
                    pu_tenant = req_tenant req', pu_isActive = True\<rparr>
        \<and> req_tenant req' = findOne (\<lambda>t. t_id t = u_tenant u) (Tenants s)
        \<and> (\<forall>t. req_tenant req' = Some t \<longrightarrow> t_id t = u_tenant u \<and> t \<in> set (Tenants s))))"
proof -
  have rejected: "(\<exists>r. authenticate verify s header req = Inl r) \<longleftrightarrow>
      (bearer_token header = None \<or> bearer_token header = Some [] \<or>
       (\<exists>token. bearer_token header = Some token \<and>
          (verify token = None \<or>
           (\<exists>decoded. verify token = Some decoded \<and>
              (User_findById_populate s (c_userId decoded) = None \<or>
               (\<exists>user. User_findById_populate s (c_userId decoded) = Some user
                       \<and> \<not> pu_isActive user))))))"
    unfolding authenticate_def by (auto split: option.splits)
  have code: "\<forall>r. authenticate verify s header req = Inl r \<longrightarrow> status r = 401"
    unfolding authenticate_def by (auto split: option.splits if_splits)
  have attached: "\<forall>req'. authenticate verify s header req = Inr req' \<longrightarrow>
       (\<exists>token decoded user.
          bearer_token header = Some token \<and> verify token = Some decoded
        \<and> User_findById_populate s (c_userId decoded) = Some user
        \<and> req' = req\<lparr>req_user := Some user, req_tenant := pu_tenant user\<rparr>)"
    unfolding authenticate_def by (auto split: option.splits if_splits)
  have absent: "bearer_token header = None \<longleftrightarrow> header = None"
    unfolding bearer_token_def by simp
  have stored: "\<exists>token decoded u.
          bearer_token header = Some token \<and> verify token = Some decoded
        \<and> findOne (\<lambda>u. u_id u = c_userId decoded) (Users s) = Some u
        \<and> u \<in> set (Users s) \<and> u_id u = c_userId decoded \<and> isActive u
        \<and> req_user req'
            = Some \<lparr>pu_id = u_id u, pu_email = email u, pu_role = role u,
                    pu_tenant = req_tenant req', pu_isActive = True\<rparr>
        \<and> req_tenant req' = findOne (\<lambda>t. t_id t = u_tenant u) (Tenants s)
        \<and> (\<forall>t. req_tenant req' = Some t \<longrightarrow> t_id t = u_tenant u \<and> t \<in> set (Tenants s))"
    if "authenticate verify s header req = Inr req'" for req'
  proof -
    from attached that obtain token decoded user where
      tok: "bearer_token header = Some token" "verify token = Some decoded"
      and user: "User_findById_populate s (c_userId decoded) = Some user"
      and req': "req' = req\<lparr>req_user := Some user, req_tenant := pu_tenant user\<rparr>"
      by blast
    from user obtain u where
      u: "findOne (\<lambda>u. u_id u = c_userId decoded) (Users s) = Some u"
      and pop: "user = populate_tenant s u"
      unfolding User_findById_populate_def by auto
    from u have found: "u_id u = c_userId decoded" "u \<in> set (Users s)"
      by (auto dest: findOne_SomeD)
    from that tok user have "pu_isActive user"
      unfolding authenticate_def by (simp split: if_splits)
    with pop have active: "isActive u" by (simp add: populate_tenant_def)
    have tenant: "req_tenant req' = findOne (\<lambda>t. t_id t = u_tenant u) (Tenants s)"
      using req' pop by (simp add: populate_tenant_def)
    have own: "t_id t = u_tenant u \<and> t \<in> set (Tenants s)" if "req_tenant req' = Some t" for t
      using that tenant by (auto dest: findOne_SomeD)
    have attached_user: "req_user req'
            = Some \<lparr>pu_id = u_id u, pu_email = email u, pu_role = role u,
                    pu_tenant = req_tenant req', pu_isActive = True\<rparr>"
      using req' pop active by (simp add: populate_tenant_def)
    from tok u found active attached_user tenant own show ?thesis by blast
  qed
  from rejected code attached absent stored show ?thesis by blast
qed

theorem authenticate_outcomes_witness:
  "authenticate demo_verify seeded (Some ''Bearer jwt11'') no_context = Inr (as_user seeded admin_acme)
 \<and> req_tenant (as_user seeded admin_acme) = Some acme
 \<and> authenticate demo_verify seeded None no_context
      = Inl (Response 401 ''Access denied. No token provided.'' None)
 \<and> authenticate demo_verify seeded (Some ''Bearer '') no_context
      = Inl (Response 401 ''Access denied. No token provided.'' None)
 \<and> authenticate demo_verify seeded (Some ''Bearer expired'') no_context
      = Inl (Response 401 ''Invalid token.'' None)
 \<and> authenticate demo_verify seeded (Some ''Bearer jwt99'') no_context
      = Inl (Response 401 ''Invalid token. User not found.'' None)
 \<and> authenticate demo_verify seeded_deactivated (Some ''Bearer jwt12'') no_context
      = Inl (Response 401 ''Account is deactivated.'' None)
 \<and> authenticate demo_verify seeded (Some ''Bearer jwt22'') no_context
      = Inr \<lparr>req_user = Some \<lparr>pu_id = 22, pu_email = ''user@globex.test'', pu_role = ''member'',
                               pu_tenant = Some globex, pu_isActive = True\<rparr>,
             req_tenant = Some globex\<rparr>
 \<and> t_id globex = u_tenant user_globex \<and> t_id acme \<noteq> u_tenant user_globex"
  using authenticate_outcomes [of demo_verify seeded "Some ''Bearer jwt11''" no_context]
    authenticate_outcomes [of demo_verify seeded "Some ''Bearer jwt22''" no_context]
    authenticate_outcomes [of demo_verify seeded None no_context]
    authenticate_outcomes [of demo_verify seeded_deactivated "Some ''Bearer jwt12''" no_context]
  by (simp add: eval_defs example_defs)

text \<open>
  Claim C10. The "Bearer " prefix is not required. The outcome of \<open>authenticate\<close>
  for a header is its outcome for "Bearer " followed by what is left of the header once
  the first "Bearer " is taken out of it. So a bare token without a space is treated as
  if it had the prefix, and so is a header with "Bearer " standing after a space-free
  beginning. An absent header is rejected with 401; a header whose remaining token is
  non-empty, verifies and names an active user is accepted, whatever its form.
\<close>

theorem authenticate_bearer_prefix_optional:
  "authenticate verify s (Some h) req
     = authenticate verify s (Some (''Bearer '' @ replace_first ''Bearer '' [] h)) req
 \<and> (CHR '' '' \<notin> set t \<longrightarrow>
       authenticate verify s (Some t) req = authenticate verify s (Some (''Bearer '' @ t)) req)
 \<and> (CHR '' '' \<notin> set xs \<longrightarrow>
       authenticate verify s (Some (xs @ ''Bearer '' @ ys)) req
         = authenticate verify s (Some (''Bearer '' @ xs @ ys)) req)
 \<and> authenticate verify s None req = Inl (Response 401 ''Access denied. No token provided.'' None)
 \<and> (replace_first ''Bearer '' [] h \<noteq> []
      \<and> verify (replace_first ''Bearer '' [] h) = Some decoded
      \<and> User_findById_populate s (c_userId decoded) = Some user \<and> pu_isActive user \<longrightarrow>
       authenticate verify s (Some h) req
         = Inr (req\<lparr>req_user := Some user, req_tenant := pu_tenant user\<rparr>))"
proof -
  have token_only: "authenticate verify s (Some a) req = authenticate verify s (Some b) req"
    if "replace_first ''Bearer '' [] a = replace_first ''Bearer '' [] b" for a b
    using that by (simp add: authenticate_def bearer_token_def)
  have A: "authenticate verify s (Some h) req
     = authenticate verify s (Some (''Bearer '' @ replace_first ''Bearer '' [] h)) req"
    by (rule token_only) (simp only: bearer_strip_prefix)
  have B: "authenticate verify s (Some t) req = authenticate verify s (Some (''Bearer '' @ t)) req"
    if "CHR '' '' \<notin> set t"
    by (rule token_only) (simp only: bearer_strip_prefix bearer_strip_bare [OF that])
  have C: "authenticate verify s (Some (xs @ ''Bearer '' @ ys)) req
         = authenticate verify s (Some (''Bearer '' @ xs @ ys)) req"
    if "CHR '' '' \<notin> set xs"
    by (rule token_only) (simp only: bearer_strip_prefix bearer_strip_inner [OF that])
  have D: "authenticate verify s None req
             = Inl (Response 401 ''Access denied. No token provided.'' None)"
    by (simp add: authenticate_def bearer_token_def)
  have E: "authenticate verify s (Some h) req
         = Inr (req\<lparr>req_user := Some user, req_tenant := pu_tenant user\<rparr>)"
    if "replace_first ''Bearer '' [] h \<noteq> []"
      "verify (replace_first ''Bearer '' [] h) = Some decoded"
      "User_findById_populate s (c_userId decoded) = Some user" "pu_isActive user"
    using that by (simp add: authenticate_def bearer_token_def)
  from A B C D E show ?thesis by blast
qed

theorem authenticate_bearer_prefix_optional_witness:
  "CHR '' '' \<notin> set ''jwt11''
 \<and> authenticate demo_verify seeded (Some ''jwt11'') no_context = Inr (as_user seeded admin_acme)
 \<and> authenticate demo_verify seeded (Some ''Bearer jwt11'') no_context
      = Inr (as_user seeded admin_acme)
 \<and> authenticate demo_verify seeded (Some ''jwtBearer 11'') no_context
      = Inr (as_user seeded admin_acme)
 \<and> authenticate demo_verify seeded (Some ''bearer jwt11'') no_context
      = Inl (Response 401 ''Invalid token.'' None)"
  using authenticate_bearer_prefix_optional
          [of demo_verify seeded "''jwt11''" no_context "''jwt11''" "''jwt''" "''11''"
              "demo_decoded 11" "populate_tenant seeded admin_acme"]
  by (simp add: eval_defs example_defs)

text \<open>
  Claim C3. \<open>validateTenant\<close> is asymmetric, on every slug a \<open>/:slug\<close> route hands
  it, that is, every non-empty one. If a user (with its tenant populated) is attached,
  it answers 403 exactly when the path slug differs from the slug of the user's tenant,
  compared as strings, case included, and otherwise passes the request on unchanged. If
  no user is attached, it resolves the tenant by the slug lookup of the tenant
  collection, answers 404 exactly when the lookup finds none, and otherwise attaches the
  tenant found to the request. The lookup finds the first stored tenant whose slug is the
  lowercased, trimmed path slug.
\<close>

theorem validateTenant_asymmetric:
  "(tenantSlug \<noteq> [] \<and> req_user req = Some u \<and> pu_tenant u = Some t \<longrightarrow>
       ((\<exists>r. validateTenant s (Some tenantSlug) req = Inl r \<and> status r = 403)
          \<longleftrightarrow> slug t \<noteq> tenantSlug)
     \<and> (validateTenant s (Some tenantSlug) req = Inr req \<longleftrightarrow> slug t = tenantSlug))
 \<and> (tenantSlug \<noteq> [] \<and> req_user req = None \<longrightarrow>
       ((\<exists>r. validateTenant s (Some tenantSlug) req = Inl r \<and> status r = 404)
          \<longleftrightarrow> Tenant_findOne_slug s tenantSlug = None)
     \<and> (\<forall>t'. Tenant_findOne_slug s tenantSlug = Some t' \<longrightarrow>
            validateTenant s (Some tenantSlug) req = Inr (req\<lparr>req_tenant := Some t'\<rparr>)))
 \<and> (Tenant_findOne_slug s tenantSlug = None
       \<longleftrightarrow> (\<forall>t' \<in> set (Tenants s). slug t' \<noteq> toLowerCase (trim tenantSlug)))
 \<and> (\<forall>t'. Tenant_findOne_slug s tenantSlug = Some t' \<longrightarrow>
        t' \<in> set (Tenants s) \<and> slug t' = toLowerCase (trim tenantSlug))"
proof -
  have attached: "((\<exists>r. validateTenant s (Some tenantSlug) req = Inl r \<and> status r = 403)
          \<longleftrightarrow> slug t \<noteq> tenantSlug)
     \<and> (validateTenant s (Some tenantSlug) req = Inr req \<longleftrightarrow> slug t = tenantSlug)"
    if "tenantSlug \<noteq> []" "req_user req = Some u" "pu_tenant u = Some t"
    using that unfolding validateTenant_def by auto
  have public: "((\<exists>r. validateTenant s (Some tenantSlug) req = Inl r \<and> status r = 404)
          \<longleftrightarrow> Tenant_findOne_slug s tenantSlug = None)
     \<and> (\<forall>t'. Tenant_findOne_slug s tenantSlug = Some t' \<longrightarrow>
            validateTenant s (Some tenantSlug) req = Inr (req\<lparr>req_tenant := Some t'\<rparr>))"
    if "tenantSlug \<noteq> []" "req_user req = None"
    using that unfolding validateTenant_def by (auto split: option.splits)
  have none: "Tenant_findOne_slug s tenantSlug = None
       \<longleftrightarrow> (\<forall>t' \<in> set (Tenants s). slug t' \<noteq> toLowerCase (trim tenantSlug))"
    unfolding Tenant_findOne_slug_def by (simp add: findOne_None_iff)
  have some: "t' \<in> set (Tenants s) \<and> slug t' = toLowerCase (trim tenantSlug)"
    if "Tenant_findOne_slug s tenantSlug = Some t'" for t'
    using that unfolding Tenant_findOne_slug_def by (auto dest: findOne_SomeD)
  from attached public none some show ?thesis by blast
qed

lemmas slug_defs = Tenant_findOne_slug_def trim_def is_space_def toLowerCase_def char_of_def bit_0

theorem validateTenant_asymmetric_witness:
  "validateTenant seeded (Some ''acme'') (as_user seeded admin_acme)
      = Inr (as_user seeded admin_acme)
 \<and> validateTenant seeded (Some ''globex'') (as_user seeded admin_acme)
      = Inl (Response 403 ''Access denied. You do not belong to this tenant.'' None)
 \<and> validateTenant seeded (Some ''Acme'') (as_user seeded admin_acme)
      = Inl (Response 403 ''Access denied. You do not belong to this tenant.'' None)
 \<and> validateTenant seeded (Some ''globex'') no_context = Inr (no_context\<lparr>req_tenant := Some globex\<rparr>)
 \<and> validateTenant seeded (Some '' Acme '') no_context = Inr (no_context\<lparr>req_tenant := Some acme\<rparr>)
 \<and> validateTenant seeded (Some ''initech'') no_context
      = Inl (Response 404 ''Tenant not found.'' None)"
proof -
  have 1: "req_user (as_user seeded admin_acme) = Some (populate_tenant seeded admin_acme)"
    by (simp add: as_user_def)
  have 2: "pu_tenant (populate_tenant seeded admin_acme) = Some acme"
    by (simp add: populate_tenant_def findOne_def example_defs)
  have 3: "slug acme = ''acme''" by (simp add: example_defs)
  have 4: "req_user no_context = None" by (simp add: no_context_def)
  have 5: "Tenant_findOne_slug seeded ''globex'' = Some globex"
    by (simp add: slug_defs findOne_def example_defs)
  have 6: "Tenant_findOne_slug seeded '' Acme '' = Some acme"
    by (simp add: slug_defs findOne_def example_defs)
  have 7: "Tenant_findOne_slug seeded ''initech'' = None"
    by (simp add: slug_defs findOne_def example_defs)
  have a: "validateTenant seeded (Some ''acme'') (as_user seeded admin_acme)
      = Inr (as_user seeded admin_acme)"
    using validateTenant_asymmetric
            [of "''acme''" "as_user seeded admin_acme" "populate_tenant seeded admin_acme" acme seeded]
      1 2 3 by simp
  have b: "validateTenant seeded (Some ''globex'') (as_user seeded admin_acme)
      = Inl (Response 403 ''Access denied. You do not belong to this tenant.'' None)"
    using 1 2 3 by (simp add: validateTenant_def)
  have c: "validateTenant seeded (Some ''Acme'') (as_user seeded admin_acme)
      = Inl (Response 403 ''Access denied. You do not belong to this tenant.'' None)"
    using 1 2 3 by (simp add: validateTenant_def)
  have d: "validateTenant seeded (Some ''globex'') no_context = Inr (no_context\<lparr>req_tenant := Some globex\<rparr>)"
    using validateTenant_asymmetric [of "''globex''" no_context _ _ seeded] 4 5 by simp
  have e: "validateTenant seeded (Some '' Acme '') no_context = Inr (no_context\<lparr>req_tenant := Some acme\<rparr>)"
    using validateTenant_asymmetric [of "'' Acme ''" no_context _ _ seeded] 4 6 by simp
  have f: "validateTenant seeded (Some ''initech'') no_context
      = Inl (Response 404 ''Tenant not found.'' None)"
    using 4 7 by (simp add: validateTenant_def)
  from a b c d e f show ?thesis by simp
qed

lemmas codec_defs = verifyToken_def generateToken_def jwt_sign_def jwt_verify_def
  token_claims.defs decoded_token.defs

text \<open>
  Claim C8. Token round trip, on the symbolic model of the signing library. A token
  issued by \<open>generateToken\<close> from any claim set, verified by \<open>verifyToken\<close> under
  the same environment before its expiry (\<open>expiresIn\<close> seconds after issue, seven days
  when \<open>JWT_EXPIRES_IN\<close> is unset), decodes to the claim set it was issued from,
  extended by \<open>iat\<close>, \<open>exp\<close> and \<open>iss\<close>. From the expiry time on, verification
  fails with the error "Invalid token". The token \<open>generateAccessToken\<close> issues for a
  user decodes to that user's id, email and role and its tenant's id and slug.
\<close>

theorem token_round_trip:
  "(now < issued + expiresIn e \<longrightarrow>
      (\<exists>decoded. verifyToken e now (generateToken e issued claims) = Inr decoded
         \<and> token_claims.truncate decoded = claims
         \<and> iat decoded = issued \<and> exp decoded = issued + expiresIn e
         \<and> iss decoded = ''notes-saas''))
 \<and> (issued + expiresIn e \<le> now \<longrightarrow>
      verifyToken e now (generateToken e issued claims) = Inl ''Invalid token'')
 \<and> (JWT_EXPIRES_IN e = None \<longrightarrow> expiresIn e = 604800)
 \<and> (pu_tenant user = Some t \<and> slug t \<noteq> [] \<and> now < issued + expiresIn e \<longrightarrow>
      (\<exists>token decoded. generateAccessToken e issued user = Some token
         \<and> verifyToken e now token = Inr decoded
         \<and> c_userId decoded = pu_id user \<and> c_email decoded = pu_email user
         \<and> c_role decoded = pu_role user \<and> c_tenantId decoded = t_id t
         \<and> c_tenantSlug decoded = Inl (slug t)))"
  by (auto simp add: codec_defs expiresIn_def generateAccessToken_def)

theorem token_round_trip_witness:
  "expiresIn short_lived = 1
 \<and> token_claims.truncate (projr (verifyToken short_lived 100 (generateToken short_lived 100 admin_claims)))
      = admin_claims
 \<and> isl (verifyToken short_lived 102 (generateToken short_lived 100 admin_claims))
 \<and> verifyToken short_lived 102 (generateToken short_lived 100 admin_claims) = Inl ''Invalid token''
 \<and> (case generateAccessToken short_lived 100 (populate_tenant seeded admin_acme) of
       None \<Rightarrow> False
     | Some token \<Rightarrow> map_sum id token_claims.truncate (verifyToken short_lived 100 token)
                       = Inr admin_claims)"
  using token_round_trip [of 100 100 short_lived admin_claims "populate_tenant seeded admin_acme" acme]
    token_round_trip [of 102 100 short_lived admin_claims]
  by (auto simp add: codec_defs expiresIn_def generateAccessToken_def example_defs populate_tenant_def findOne_def)

lemma updateUserRole_rejected_unchanged:
  "status (fst (updateUserRole s req slug_param userId_param role_param)) \<noteq> 200
     \<Longrightarrow> snd (updateUserRole s req slug_param userId_param role_param) = s"
  unfolding updateUserRole_def by (auto split: option.splits if_splits)

lemma deactivateUser_rejected_unchanged:
  "status (fst (deactivateUser s req slug_param userId_param)) \<noteq> 200
     \<Longrightarrow> snd (deactivateUser s req slug_param userId_param) = s"
  unfolding deactivateUser_def by (auto split: option.splits if_splits)

text \<open>
  Claim C9. Take an admin whose request addresses their own tenant (the slug lookup
  of the path slug finds the tenant of the acting user) and whose own record is the user looked up
  under the target id. A role update to anything but admin (a role outside admin and
  member, or none, included) is answered with 400 and leaves the database unchanged, and
  so is the deactivation of their own account. The decision is the comparison of the
  target's id with the acting user's id: for any other user of the tenant the same
  requests succeed and write the change. No reply other than 200 changes the database.
\<close>

theorem admin_self_protection:
  assumes "req_user req = Some u" and "pu_tenant u = Some ut" and "pu_role u = ''admin''"
    and "Tenant_findOne_slug s slug_param = Some tenant"
    and "t_id ut = t_id tenant"
    and "findOne (\<lambda>d. u_id d = pu_id u \<and> u_tenant d = t_id tenant) (Users s) = Some self"
  shows "(role_param \<noteq> Some ''admin'' \<longrightarrow>
            status (fst (updateUserRole s req slug_param (Some (pu_id u)) role_param)) = 400
          \<and> snd (updateUserRole s req slug_param (Some (pu_id u)) role_param) = s)
       \<and> updateUserRole s req slug_param (Some (pu_id u)) (Some ''member'')
            = (Response 400 ''You cannot remove your own admin privileges'' None, s)
       \<and> deactivateUser s req slug_param (Some (pu_id u))
            = (Response 400 ''You cannot deactivate your own account'' None, s)
       \<and> (\<forall>i other. findOne (\<lambda>d. u_id d = i \<and> u_tenant d = t_id tenant) (Users s) = Some other
              \<and> i \<noteq> pu_id u \<longrightarrow>
            updateUserRole s req slug_param (Some i) (Some ''member'')
              = (Response 200 ''User role updated successfully'' None,
                 User_save s i (\<lambda>d. d\<lparr>role := ''member''\<rparr>))
          \<and> deactivateUser s req slug_param (Some i)
              = (Response 200 ''User deactivated successfully'' None,
                 User_save s i (\<lambda>d. d\<lparr>isActive := False\<rparr>)))
       \<and> (\<forall>q sl i r. status (fst (updateUserRole s q sl i r)) \<noteq> 200
              \<longrightarrow> snd (updateUserRole s q sl i r) = s)
       \<and> (\<forall>q sl i. status (fst (deactivateUser s q sl i)) \<noteq> 200
              \<longrightarrow> snd (deactivateUser s q sl i) = s)"
proof -
  from assms(6) have self_id: "u_id self = pu_id u" by (auto dest: findOne_SomeD)
  have demote: "status (fst (updateUserRole s req slug_param (Some (pu_id u)) role_param)) = 400
          \<and> snd (updateUserRole s req slug_param (Some (pu_id u)) role_param) = s"
    if "role_param \<noteq> Some ''admin''"
    using that assms self_id unfolding updateUserRole_def
    by (auto split: option.splits)
  have member: "updateUserRole s req slug_param (Some (pu_id u)) (Some ''member'')
            = (Response 400 ''You cannot remove your own admin privileges'' None, s)"
    using assms self_id unfolding updateUserRole_def by simp
  have deact: "deactivateUser s req slug_param (Some (pu_id u))
            = (Response 400 ''You cannot deactivate your own account'' None, s)"
    using assms self_id unfolding deactivateUser_def by simp
  have others: "updateUserRole s req slug_param (Some i) (Some ''member'')
              = (Response 200 ''User role updated successfully'' None,
                 User_save s i (\<lambda>d. d\<lparr>role := ''member''\<rparr>))
          \<and> deactivateUser s req slug_param (Some i)
              = (Response 200 ''User deactivated successfully'' None,
                 User_save s i (\<lambda>d. d\<lparr>isActive := False\<rparr>))"
    if "findOne (\<lambda>d. u_id d = i \<and> u_tenant d = t_id tenant) (Users s) = Some other"
      and "i \<noteq> pu_id u" for i other
  proof -
    from that(1) have "u_id other = i" by (auto dest: findOne_SomeD)
    with that assms show ?thesis
      unfolding updateUserRole_def deactivateUser_def by simp
  qed
  from demote member deact others updateUserRole_rejected_unchanged
    deactivateUser_rejected_unchanged
  show ?thesis by blast
qed

theorem admin_self_protection_witness:
  "updateUserRole seeded (as_user seeded admin_acme) ''acme'' (Some 11) (Some ''member'')
     = (Response 400 ''You cannot remove your own admin privileges'' None, seeded)
 \<and> updateUserRole seeded (as_user seeded admin_acme) ''acme'' (Some 11) (Some ''owner'')
     = (Response 400 ''Invalid role. Must be admin or member.'' None, seeded)
 \<and> deactivateUser seeded (as_user seeded admin_acme) ''acme'' (Some 11)
     = (Response 400 ''You cannot deactivate your own account'' None, seeded)
 \<and> deactivateUser seeded (as_user seeded admin_acme) ''acme'' (Some 12)
     = (Response 200 ''User deactivated successfully'' None, seeded_deactivated)"
proof -
  have 1: "req_user (as_user seeded admin_acme) = Some (populate_tenant seeded admin_acme)"
    by (simp add: as_user_def)
  have 2: "pu_tenant (populate_tenant seeded admin_acme) = Some acme"
    by (simp add: populate_tenant_def findOne_def example_defs)
  have 3: "pu_role (populate_tenant seeded admin_acme) = ''admin''"
    by (simp add: populate_tenant_def example_defs)
  have 4: "Tenant_findOne_slug seeded ''acme'' = Some acme"
    by (simp add: slug_defs findOne_def example_defs)
  have 5: "t_id acme = t_id acme" by simp
  have 6: "findOne (\<lambda>d. u_id d = pu_id (populate_tenant seeded admin_acme)
                          \<and> u_tenant d = t_id acme) (Users seeded) = Some admin_acme"
    by (simp add: populate_tenant_def findOne_def example_defs)
  have 7: "findOne (\<lambda>d. u_id d = 12 \<and> u_tenant d = t_id acme) (Users seeded) = Some user_acme"
    by (simp add: findOne_def example_defs)
  have 8: "pu_id (populate_tenant seeded admin_acme) = 11"
    by (simp add: populate_tenant_def example_defs)
  have 9: "User_save seeded 12 (\<lambda>d. d\<lparr>isActive := False\<rparr>) = seeded_deactivated"
    by (simp add: User_save_def example_defs)
  have 10: "updateUserRole seeded (as_user seeded admin_acme) ''acme'' (Some 11) (Some ''owner'')
     = (Response 400 ''Invalid role. Must be admin or member.'' None, seeded)"
    by (simp add: updateUserRole_def)
  from admin_self_protection [OF 1 2 3 4 5 6, of "Some ''owner''"] 7 8 9 10
  show ?thesis by simp
qed

lemma findOne_unique_other_tenant:
  assumes "distinct (map n_id ns)" and "n \<in> set ns" and "n_tenant n \<noteq> tid"
  shows "findOne (\<lambda>m. n_id m = n_id n \<and> n_tenant m = tid) ns = None"
proof -
  from assms(1) have inj: "inj_on n_id (set ns)" by (simp add: distinct_map)
  have "\<not> (n_id m = n_id n \<and> n_tenant m = tid)" if "m \<in> set ns" for m
  proof
    assume both: "n_id m = n_id n \<and> n_tenant m = tid"
    with inj that assms(2) have "m = n" by (auto dest: inj_onD)
    with both assms(3) show False by simp
  qed
  then show ?thesis by (simp add: findOne_None_iff)
qed

text \<open>
  Claim C5, as amended. The note handlers look a note up by its id together with the
  tenant id of the request. So, for the id of a stored note of another tenant than the
  requester's (ids being unique in the collection): reading and deleting answer 404 and
  leave the database as it is, and updating answers 404 when the body has passed
  validation, and 400 when it has not, since validation is checked before the lookup.
  None of them answers 403 or succeeds. The note that a lookup hands on to
  \<open>canModify\<close>, and the note a read returns, always has the requester's tenant.
\<close>

theorem cross_tenant_note_not_found:
  assumes "req_tenant req = Some t" and "n \<in> set (Notes s)" and "n_tenant n \<noteq> t_id t"
    and "distinct (map n_id (Notes s))"
  shows "getNote s req (Some (n_id n)) = Response 404 ''Note not found'' None
       \<and> deleteNote s req (Some (n_id n)) = (Response 404 ''Note not found'' None, s)
       \<and> updateNote s req [] (Some (n_id n)) body = (Response 404 ''Note not found'' None, s)
       \<and> (errors \<noteq> [] \<longrightarrow>
            updateNote s req errors (Some (n_id n)) body
              = (Response 400 ''Validation failed'' None, s))
       \<and> (\<forall>i m. findOne (\<lambda>n. n_id n = i \<and> n_tenant n = t_id t) (Notes s) = Some m
              \<longrightarrow> n_tenant m = t_id t)
       \<and> (\<forall>i m. data (getNote s req i) = Some m \<longrightarrow> n_tenant m = t_id t)"
proof -
  from assms(2-4)
  have hidden: "findOne (\<lambda>m. n_id m = n_id n \<and> n_tenant m = t_id t) (Notes s) = None"
    by (intro findOne_unique_other_tenant)
  have scoped: "n_tenant m = t_id t"
    if "findOne (\<lambda>n. n_id n = i \<and> n_tenant n = t_id t) (Notes s) = Some m" for i m
    using that by (auto dest: findOne_SomeD)
  have shown: "n_tenant m = t_id t" if "data (getNote s req i) = Some m" for i m
    using that assms(1) scoped unfolding getNote_def
    by (auto split: option.splits)
  from hidden assms(1) have get: "getNote s req (Some (n_id n)) = Response 404 ''Note not found'' None"
    unfolding getNote_def by simp
  from hidden assms(1)
  have del: "deleteNote s req (Some (n_id n)) = (Response 404 ''Note not found'' None, s)"
    unfolding deleteNote_def by simp
  from hidden assms(1)
  have upd: "updateNote s req [] (Some (n_id n)) body = (Response 404 ''Note not found'' None, s)"
    unfolding updateNote_def by simp
  have inv: "updateNote s req errors (Some (n_id n)) body
              = (Response 400 ''Validation failed'' None, s)" if "errors \<noteq> []"
    using that unfolding updateNote_def by simp
  from get del upd inv scoped shown show ?thesis by blast
qed

theorem cross_tenant_note_not_found_witness:
  "getNote seeded (as_user seeded admin_acme) (Some 103) = Response 404 ''Note not found'' None
 \<and> deleteNote seeded (as_user seeded admin_acme) (Some 103)
      = (Response 404 ''Note not found'' None, seeded)
 \<and> updateNote seeded (as_user seeded admin_acme) [] (Some 103)
        \<lparr>b_title = Some ''Taken over'', b_content = None, b_tags = None\<rparr>
      = (Response 404 ''Note not found'' None, seeded)
 \<and> getNote seeded (as_user seeded admin_acme) (Some 101)
      = Response 200 [] (Some (sample_note 101 12 1 False))"
proof -
  have 1: "req_tenant (as_user seeded admin_acme) = Some acme"
    by (simp add: as_user_def populate_tenant_def findOne_def example_defs)
  have 2: "sample_note 103 22 2 False \<in> set (Notes seeded)" by (simp add: example_defs)
  have 3: "n_tenant (sample_note 103 22 2 False) \<noteq> t_id acme" by (simp add: example_defs)
  have 4: "distinct (map n_id (Notes seeded))" by (simp add: example_defs)
  have 5: "n_id (sample_note 103 22 2 False) = 103" by (simp add: example_defs)
  have 6: "getNote seeded (as_user seeded admin_acme) (Some 101)
      = Response 200 [] (Some (sample_note 101 12 1 False))"
    by (simp add: getNote_def as_user_def populate_tenant_def findOne_def example_defs)
  from cross_tenant_note_not_found
         [OF 1 2 3 4, of "\<lparr>b_title = Some ''Taken over'', b_content = None, b_tags = None\<rparr>"]
       5 6
  show ?thesis by simp
qed

text \<open>
  The claim as stated fails for an update whose body has not passed validation: the
  Acme admin updating the Globex note 103 with an empty title is answered 400, not 404.
\<close>

theorem update_validation_first_counterexample:
  "sample_note 103 22 2 False \<in> set (Notes seeded)
 \<and> map_option t_id (req_tenant (as_user seeded admin_acme)) = Some 1
 \<and> n_tenant (sample_note 103 22 2 False) \<noteq> 1
 \<and> fst (updateNote seeded (as_user seeded admin_acme) [''Title must be less than 200 characters'']
           (Some 103) \<lparr>b_title = Some [], b_content = None, b_tags = None\<rparr>)
      = Response 400 ''Validation failed'' None"
  by (simp add: updateNote_def as_user_def populate_tenant_def findOne_def example_defs)

lemma Note_create_result:
  "Note_create s new_id inp = Inr (n, s') \<Longrightarrow>
     s' = s\<lparr>Notes := Notes s @ [n]\<rparr> \<and> n_id n = new_id \<and> author n = in_author inp
   \<and> n_tenant n = in_tenant inp \<and> Note_pre_save s True n = None"
  unfolding Note_create_def
  by (auto simp add: Let_def split: option.splits if_splits prod.splits)

lemma createNote_rejected_unchanged:
  "status (fst (createNote s new_id req errors body)) \<noteq> 201
     \<Longrightarrow> snd (createNote s new_id req errors body) = s"
  unfolding createNote_def by (auto split: option.splits if_splits sum.splits)

lemma createNote_created:
  "status (fst (createNote s new_id req errors body)) = 201 \<Longrightarrow>
     \<exists>t n. errors = [] \<and> req_tenant req = Some t \<and> canCreateNote s t
         \<and> data (fst (createNote s new_id req errors body)) = Some n
         \<and> n_tenant n = t_id t
         \<and> snd (createNote s new_id req errors body) = s\<lparr>Notes := Notes s @ [n]\<rparr>"
  unfolding createNote_def
  by (auto split: option.splits if_splits sum.splits dest: Note_create_result)

text \<open>
  Claim C7, as amended. When a free-plan tenant whose note count has reached its
  \<open>max_notes\<close> limit sends a create request that has passed input validation, the
  reply is the quota 403 and the database is unchanged; a request that has not passed
  validation is answered 400 before the quota is looked at, also without a write. The
  gate runs before the write: a reply other than 201 never changes the database, and a
  201 means that \<open>canCreateNote\<close> held on the database as it was and that exactly one
  note has been appended.
\<close>

theorem quota_checked_before_write:
  assumes "req_tenant req = Some t" and "plan t = ''free''"
    and "max_notes t \<le> int (countDocuments (\<lambda>n. n_tenant n = t_id t) (Notes s))"
  shows "createNote s new_id req [] body
           = (Response 403 ''Note limit reached for your subscription plan'' None, s)
       \<and> (errors \<noteq> [] \<longrightarrow>
            createNote s new_id req errors body = (Response 400 ''Validation failed'' None, s))
       \<and> (\<forall>i q e b. status (fst (createNote s i q e b)) \<noteq> 201 \<longrightarrow> snd (createNote s i q e b) = s)
       \<and> (\<forall>i q e b. status (fst (createNote s i q e b)) = 201 \<longrightarrow>
             (\<exists>t' n. req_tenant q = Some t' \<and> canCreateNote s t'
                  \<and> snd (createNote s i q e b) = s\<lparr>Notes := Notes s @ [n]\<rparr>))"
proof -
  from assms(2,3) have "\<not> canCreateNote s t" unfolding canCreateNote_def by simp
  with assms(1) have quota: "createNote s new_id req [] body
           = (Response 403 ''Note limit reached for your subscription plan'' None, s)"
    unfolding createNote_def by simp
  have invalid: "createNote s new_id req errors body
           = (Response 400 ''Validation failed'' None, s)" if "errors \<noteq> []"
    using that unfolding createNote_def by simp
  have written: "\<exists>t' n. req_tenant q = Some t' \<and> canCreateNote s t'
                  \<and> snd (createNote s i q e b) = s\<lparr>Notes := Notes s @ [n]\<rparr>"
    if "status (fst (createNote s i q e b)) = 201" for i q e b
    using createNote_created [OF that] by blast
  from quota invalid written createNote_rejected_unchanged show ?thesis by blast
qed

theorem quota_checked_before_write_witness:
  "createNote acme_full 105 (as_user acme_full admin_acme) []
     \<lparr>b_title = Some ''Fourth'', b_content = Some ''One too many'', b_tags = None\<rparr>
   = (Response 403 ''Note limit reached for your subscription plan'' None, acme_full)
 \<and> status (fst (createNote seeded 104 (as_user seeded user_acme) []
     \<lparr>b_title = Some '' Third '', b_content = Some ''Still allowed'', b_tags = Some (TagsArray [''Q4''])\<rparr>))
   = 201
 \<and> Notes (snd (createNote seeded 104 (as_user seeded user_acme) []
     \<lparr>b_title = Some '' Third '', b_content = Some ''Still allowed'', b_tags = Some (TagsArray [''Q4''])\<rparr>))
   = Notes seeded @ [\<lparr>n_id = 104, title = ''Third'', content = ''Still allowed'', author = 12,
                       n_tenant = 1, tags = [''q4''], isArchived = False\<rparr>]"
proof -
  have 1: "req_tenant (as_user acme_full admin_acme) = Some acme"
    by (simp add: as_user_def populate_tenant_def findOne_def example_defs)
  have 2: "plan acme = ''free''" by (simp add: example_defs)
  have 3: "max_notes acme \<le> int (countDocuments (\<lambda>n. n_tenant n = t_id acme) (Notes acme_full))"
    by (simp add: countDocuments_def example_defs)
  have 4: "createNote seeded 104 (as_user seeded user_acme) []
     \<lparr>b_title = Some '' Third '', b_content = Some ''Still allowed'', b_tags = Some (TagsArray [''Q4''])\<rparr>
     = (Response 201 ''Note created successfully''
         (Some \<lparr>n_id = 104, title = ''Third'', content = ''Still allowed'', author = 12,
                       n_tenant = 1, tags = [''q4''], isArchived = False\<rparr>),
        seeded\<lparr>Notes := Notes seeded @ [\<lparr>n_id = 104, title = ''Third'', content = ''Still allowed'', author = 12,
                       n_tenant = 1, tags = [''q4''], isArchived = False\<rparr>]\<rparr>)"
    by (simp add: createNote_def canCreateNote_def countDocuments_def Note_create_def
          Note_pre_save_def cast_tags_def trim_def is_space_def toLowerCase_def
          as_user_def populate_tenant_def findOne_def example_defs Let_def char_of_def bit_0)
  from quota_checked_before_write [OF 1 2 3] 4 show ?thesis by simp
qed

text \<open>
  The claim as stated fails for a request that has not passed validation: Acme is on
  the free plan with 3 notes and a limit of 3, and a create request without a title is
  answered 400, not the quota 403.
\<close>

theorem create_validation_first_counterexample:
  "map_option plan (req_tenant (as_user acme_full admin_acme)) = Some ''free''
 \<and> int (countDocuments (\<lambda>n. n_tenant n = 1) (Notes acme_full)) = 3
 \<and> map_option max_notes (req_tenant (as_user acme_full admin_acme)) = Some 3
 \<and> createNote acme_full 105 (as_user acme_full admin_acme)
      [''Title is required and must be less than 200 characters'']
      \<lparr>b_title = None, b_content = Some ''No title'', b_tags = None\<rparr>
   = (Response 400 ''Validation failed'' None, acme_full)"
  by (simp add: createNote_def countDocuments_def as_user_def populate_tenant_def findOne_def
        example_defs)

subsection \<open>The handlers' effect on the database\<close>

lemma list_all_update_first:
  "list_all P xs \<Longrightarrow> (\<And>x. P x \<Longrightarrow> P (f x)) \<Longrightarrow> list_all P (update_first q f xs)"
  by (induction xs) auto

lemma list_all_delete_first: "list_all P xs \<Longrightarrow> list_all P (delete_first q xs)"
  by (induction xs) auto

lemma map_update_first: "(\<And>x. g (f x) = g x) \<Longrightarrow> map g (update_first q f xs) = map g xs"
  by (induction xs) auto

lemma findOne_update_first_same:
  assumes "\<And>d. k (f d) = k d" and "\<And>d. g (f d) = g d"
  shows "map_option g (findOne (\<lambda>d. k d = a) (update_first q f ds))
           = map_option g (findOne (\<lambda>d. k d = a) ds)"
  using assms unfolding findOne_def by (induction ds) auto

lemma author_tenant_ok_cong:
  assumes "\<And>a. map_option u_tenant (findOne (\<lambda>u. u_id u = a) (Users s'))
                = map_option u_tenant (findOne (\<lambda>u. u_id u = a) (Users s))"
  shows "author_tenant_ok s' n = author_tenant_ok s n"
  using assms [of "author n"] unfolding author_tenant_ok_def
  by (auto split: option.splits)

lemma note_tenant_inv_users:
  assumes "note_tenant_inv s" and "Notes s' = Notes s"
    and "Users s' = Users s \<or> (\<exists>q f. Users s' = update_first q f (Users s)
            \<and> (\<forall>d. u_id (f d) = u_id d \<and> u_tenant (f d) = u_tenant d))"
  shows "note_tenant_inv s'"
proof -
  have "map_option u_tenant (findOne (\<lambda>u. u_id u = a) (Users s'))
          = map_option u_tenant (findOne (\<lambda>u. u_id u = a) (Users s))" for a
    using assms(3) by (auto simp add: findOne_update_first_same)
  then have "author_tenant_ok s' = author_tenant_ok s"
    by (intro ext author_tenant_ok_cong)
  with assms(1,2) show ?thesis unfolding note_tenant_inv_def by simp
qed

lemma author_tenant_ok_Notes [simp]: "author_tenant_ok (s\<lparr>Notes := ns\<rparr>) = author_tenant_ok s"
  by (intro ext) (simp add: author_tenant_ok_def)

lemma pre_save_ok: "Note_pre_save s True n = None \<Longrightarrow> author_tenant_ok s n"
  unfolding Note_pre_save_def author_tenant_ok_def by (auto split: option.splits if_splits)

lemma Note_create_ok:
  assumes "Note_create s new_id inp = Inr (n, s')"
  shows "author_tenant_ok s n \<and> s' = s\<lparr>Notes := Notes s @ [n]\<rparr>"
  using Note_create_result [OF assms] by (simp add: pre_save_ok)

lemma createNote_store:
  "snd (createNote s i q e b) = s \<or>
   (\<exists>n. author_tenant_ok s n \<and> snd (createNote s i q e b) = s\<lparr>Notes := Notes s @ [n]\<rparr>)"
  unfolding createNote_def
  by (auto split: option.splits if_splits sum.splits dest: Note_create_ok)

lemma createNote_preserves: "note_tenant_inv s \<Longrightarrow> note_tenant_inv (snd (createNote s i q e b))"
  using createNote_store [of s i q e b]
  by (auto simp add: note_tenant_inv_def)

lemma apply_update_keeps: "n_id (apply_update u n) = n_id n \<and> author (apply_update u n) = author n
   \<and> n_tenant (apply_update u n) = n_tenant n \<and> isArchived (apply_update u n) = isArchived n"
  by (simp add: apply_update_def)

lemma Note_findByIdAndUpdate_result:
  "Note_findByIdAndUpdate s j u = Inr (r, s') \<Longrightarrow>
     s' = s\<lparr>Notes := update_first (\<lambda>n. n_id n = j) (apply_update u) (Notes s)\<rparr>"
  unfolding Note_findByIdAndUpdate_def by (simp add: Let_def split: if_splits)

lemma updateNote_store:
  "snd (updateNote s q e i b) = s \<or>
   (\<exists>j u. snd (updateNote s q e i b)
             = s\<lparr>Notes := update_first (\<lambda>n. n_id n = j) (apply_update u) (Notes s)\<rparr>)"
proof (cases "status (fst (updateNote s q e i b)) = 200")
  case False
  then have "snd (updateNote s q e i b) = s"
    unfolding updateNote_def by (simp split: option.splits if_splits sum.splits prod.splits)
  then show ?thesis by simp
next
  case True
  then obtain j u r s' where "Note_findByIdAndUpdate s j u = Inr (r, s')"
    and "snd (updateNote s q e i b) = s'"
    unfolding updateNote_def
    by (simp split: option.splits if_splits sum.splits prod.splits)
  then show ?thesis by (auto dest: Note_findByIdAndUpdate_result)
qed

lemma author_tenant_ok_apply_update [simp]:
  "author_tenant_ok s (apply_update u n) = author_tenant_ok s n"
  by (simp add: author_tenant_ok_def apply_update_keeps cong: option.case_cong)

lemma updateNote_preserves: "note_tenant_inv s \<Longrightarrow> note_tenant_inv (snd (updateNote s q e i b))"
  using updateNote_store [of s q e i b]
  by (auto simp add: note_tenant_inv_def intro!: list_all_update_first)

lemma deleteNote_store:
  "snd (deleteNote s q i) = s \<or>
   (\<exists>j. snd (deleteNote s q i) = s\<lparr>Notes := delete_first (\<lambda>n. n_id n = j) (Notes s)\<rparr>)"
  unfolding deleteNote_def Note_findByIdAndDelete_def
  by (auto split: option.splits if_splits sum.splits)

lemma deleteNote_preserves: "note_tenant_inv s \<Longrightarrow> note_tenant_inv (snd (deleteNote s q i))"
  using deleteNote_store [of s q i]
  by (auto simp add: note_tenant_inv_def intro!: list_all_delete_first)

lemma upgradeTenant_store:
  "Users (snd (upgradeTenant s now q sl)) = Users s \<and> Notes (snd (upgradeTenant s now q sl)) = Notes s"
  unfolding upgradeTenant_def upgradeToPro_def Tenant_save_def
  by (auto split: option.splits if_splits)

lemma upgradeTenant_preserves:
  "note_tenant_inv s \<Longrightarrow> note_tenant_inv (snd (upgradeTenant s now q sl))"
  using upgradeTenant_store [of s now q sl] by (auto intro: note_tenant_inv_users)

lemma updateUserRole_store:
  "Notes (snd (updateUserRole s q sl i r)) = Notes s \<and>
   (Users (snd (updateUserRole s q sl i r)) = Users s \<or>
    (\<exists>j new_role. Users (snd (updateUserRole s q sl i r))
        = update_first (\<lambda>d. u_id d = j) (\<lambda>d. d\<lparr>role := new_role\<rparr>) (Users s)))"
  unfolding updateUserRole_def User_save_def
  by (auto split: option.splits if_splits)

lemma updateUserRole_preserves:
  "note_tenant_inv s \<Longrightarrow> note_tenant_inv (snd (updateUserRole s q sl i r))"
proof -
  assume inv: "note_tenant_inv s"
  from updateUserRole_store [of s q sl i r]
  have "Notes (snd (updateUserRole s q sl i r)) = Notes s"
    and "Users (snd (updateUserRole s q sl i r)) = Users s \<or>
      (\<exists>p f. Users (snd (updateUserRole s q sl i r)) = update_first p f (Users s)
            \<and> (\<forall>d. u_id (f d) = u_id d \<and> u_tenant (f d) = u_tenant d))"
    by (auto intro!: exI [where x = "\<lambda>d. d\<lparr>role := _\<rparr>"])
  with inv show ?thesis by (rule note_tenant_inv_users)
qed

lemma deactivateUser_store:
  "Notes (snd (deactivateUser s q sl i)) = Notes s \<and>
   (Users (snd (deactivateUser s q sl i)) = Users s \<or>
    (\<exists>j. Users (snd (deactivateUser s q sl i))
        = update_first (\<lambda>d. u_id d = j) (\<lambda>d. d\<lparr>isActive := False\<rparr>) (Users s)))"
  unfolding deactivateUser_def User_save_def
  by (auto split: option.splits if_splits)

lemma deactivateUser_preserves:
  "note_tenant_inv s \<Longrightarrow> note_tenant_inv (snd (deactivateUser s q sl i))"
proof -
  assume inv: "note_tenant_inv s"
  from deactivateUser_store [of s q sl i]
  have "Notes (snd (deactivateUser s q sl i)) = Notes s"
    and "Users (snd (deactivateUser s q sl i)) = Users s \<or>
      (\<exists>p f. Users (snd (deactivateUser s q sl i)) = update_first p f (Users s)
            \<and> (\<forall>d. u_id (f d) = u_id d \<and> u_tenant (f d) = u_tenant d))"
    by (auto intro!: exI [where x = "\<lambda>d. d\<lparr>isActive := False\<rparr>"])
  with inv show ?thesis by (rule note_tenant_inv_users)
qed

lemma reachable_inv: "reachable s \<Longrightarrow> note_tenant_inv s"
proof (induction rule: reachable.induct)
  case (start s)
  then show ?case by (simp add: note_tenant_inv_def)
next
  case (create s new_id req errors body)
  then show ?case by (intro createNote_preserves)
next
  case (update s req errors id_param body)
  then show ?case by (intro updateNote_preserves)
next
  case (delete s req id_param)
  then show ?case by (intro deleteNote_preserves)
next
  case (upgrade s now req slug_param)
  then show ?case by (intro upgradeTenant_preserves)
next
  case (change_role s req slug_param userId_param role_param)
  then show ?case by (intro updateUserRole_preserves)
next
  case (deactivate s req slug_param userId_param)
  then show ?case by (intro deactivateUser_preserves)
qed

lemma Note_create_checks_tenant:
  "findOne (\<lambda>u. u_id u = in_author inp) (Users s) = None
     \<or> (\<exists>u. findOne (\<lambda>u. u_id u = in_author inp) (Users s) = Some u
              \<and> u_tenant u \<noteq> in_tenant inp)
   \<Longrightarrow> \<exists>e. Note_create s new_id inp = Inl e"
  unfolding Note_create_def Note_pre_save_def
  by (auto simp add: Let_def split: option.splits)

lemma updateNote_keeps_owner:
  "map (\<lambda>n. (n_id n, author n, n_tenant n, isArchived n))
       (Notes (snd (updateNote s req errors id_param body)))
     = map (\<lambda>n. (n_id n, author n, n_tenant n, isArchived n)) (Notes s)"
  using updateNote_store [of s req errors id_param body]
  by (auto simp add: map_update_first apply_update_keeps)

text \<open>
  Claim C6. Every note's tenant is the tenant of its author, in every database the
  handlers can reach from one without notes. Creation checks it: \<open>Note.create\<close> fails
  when the author's tenant differs from the tenant supplied, and a note it does insert
  has its author's tenant. The update handler leaves the id, author, tenant and archived
  flag of every stored note as they were, so only title, content and tags are written.
  Creating, updating and deleting a note each preserve the invariant.
\<close>

theorem note_tenant_invariant:
  "(reachable s \<longrightarrow> note_tenant_inv s)
 \<and> (\<forall>u. findOne (\<lambda>u. u_id u = in_author inp) (Users s) = Some u
          \<and> u_tenant u \<noteq> in_tenant inp \<longrightarrow> (\<exists>e. Note_create s new_id inp = Inl e))
 \<and> (\<forall>n s'. Note_create s new_id inp = Inr (n, s') \<longrightarrow>
        author_tenant_ok s n \<and> s' = s\<lparr>Notes := Notes s @ [n]\<rparr>)
 \<and> map (\<lambda>n. (n_id n, author n, n_tenant n, isArchived n))
       (Notes (snd (updateNote s req errors id_param body)))
     = map (\<lambda>n. (n_id n, author n, n_tenant n, isArchived n)) (Notes s)
 \<and> (note_tenant_inv s \<longrightarrow>
        note_tenant_inv (snd (createNote s new_id req errors body))
      \<and> note_tenant_inv (snd (updateNote s req errors id_param body))
      \<and> note_tenant_inv (snd (deleteNote s req id_param)))"
  using reachable_inv [of s] Note_create_checks_tenant [of inp s new_id]
    Note_create_ok [of s new_id inp] updateNote_keeps_owner [of s req errors id_param body]
    createNote_preserves [of s new_id req errors body]
    updateNote_preserves [of s req errors id_param body]
    deleteNote_preserves [of s req id_param]
  by blast

theorem note_tenant_invariant_witness:
  "Notes (snd (createNote seeded_empty 101 (as_user seeded_empty user_acme) [] welcome_body))
     = [sample_note 101 12 1 False]
 \<and> note_tenant_inv (snd (createNote seeded_empty 101 (as_user seeded_empty user_acme) []
                           welcome_body))
 \<and> note_tenant_inv seeded
 \<and> Note_create seeded 105
       \<lparr>in_title = Some ''Misfiled'', in_content = Some ''Acme author, Globex tenant'',
        in_tags = [], in_author = 12, in_tenant = 2\<rparr>
     = Inl ''Note tenant must match author tenant''
 \<and> Notes (snd (updateNote seeded (as_user seeded admin_acme) [] (Some 101)
                  \<lparr>b_title = Some ''Edited'', b_content = None, b_tags = None\<rparr>))
     = [(sample_note 101 12 1 False)\<lparr>title := ''Edited''\<rparr>, sample_note 102 11 1 False,
        sample_note 103 22 2 False]"
proof -
  let ?created = "snd (createNote seeded_empty 101 (as_user seeded_empty user_acme) [] welcome_body)"
  have "reachable seeded_empty" by (rule reachable.start) (simp add: example_defs)
  then have 1: "reachable ?created" by (rule reachable.create)
  have 2: "Notes ?created = [sample_note 101 12 1 False]"
    by (simp add: createNote_def canCreateNote_def countDocuments_def Note_create_def
          Note_pre_save_def cast_tags_def trim_def is_space_def toLowerCase_def
          as_user_def populate_tenant_def findOne_def example_defs Let_def)
  have 3: "note_tenant_inv seeded"
    by (simp add: note_tenant_inv_def author_tenant_ok_def findOne_def example_defs)
  have 4: "Note_create seeded 105
       \<lparr>in_title = Some ''Misfiled'', in_content = Some ''Acme author, Globex tenant'',
        in_tags = [], in_author = 12, in_tenant = 2\<rparr>
     = Inl ''Note tenant must match author tenant''"
    by (simp add: Note_create_def Note_pre_save_def cast_tags_def trim_def is_space_def
          findOne_def example_defs Let_def)
  have 5: "Notes (snd (updateNote seeded (as_user seeded admin_acme) [] (Some 101)
                  \<lparr>b_title = Some ''Edited'', b_content = None, b_tags = None\<rparr>))
     = [(sample_note 101 12 1 False)\<lparr>title := ''Edited''\<rparr>, sample_note 102 11 1 False,
        sample_note 103 22 2 False]"
    by (simp add: updateNote_def canModify_def Note_findByIdAndUpdate_def apply_update_def
          trim_def is_space_def as_user_def populate_tenant_def findOne_def example_defs Let_def)
  from note_tenant_invariant [of ?created] 1 2 3 4 5 show ?thesis by simp
qed

end
